theory Spec2Isabelle
  imports Main "HOL-Library.Word" "HOL-Library.Signed_Division"
begin

unbundle bit_operations_syntax

section \<open>Data model\<close>

text \<open>
  A shallow embedding of the backup client of \<^verbatim>\<open>pkg/raw/full.go\<close> and of the
  \<^verbatim>\<open>backup full\<close> / \<^verbatim>\<open>backup table\<close> handlers of \<^verbatim>\<open>cmd/raw.go\<close>.

  Go's \<^verbatim>\<open>uint64\<close>, \<^verbatim>\<open>int64\<close> and \<^verbatim>\<open>uint32\<close> are machine words: \<open>+\<close>, \<open>-\<close> and \<open>*\<close>
  wrap around. An \<^verbatim>\<open>int64\<close> is compared with the signed order \<open><s\<close>, a \<^verbatim>\<open>uint64\<close>
  with \<open><\<close>. Go's \<^verbatim>\<open>int\<close> holds only millisecond hints here (compared and copied,
  never added), and is an \<open>int\<close>. A \<^verbatim>\<open>[]byte\<close> and a Go string are both byte
  strings. A nil pointer is \<open>None\<close>; a Go \<^verbatim>\<open>error\<close> is an \<open>error option\<close>, and a
  result pair \<^verbatim>\<open>(v, err)\<close> whose value is read only when \<^verbatim>\<open>err == nil\<close> is a sum
  \<open>error + 'a\<close>.
\<close>

type_synonym u64 = "64 word"
type_synonym i64 = "64 word"
type_synonym u32 = "32 word"
type_synonym bytes = string

subsection \<open>Protocol messages (kvproto)\<close>

record LockInfo =
  lock_PrimaryLock :: bytes
  lock_LockVersion :: u64
  lock_Key :: bytes
  lock_LockTtl :: u64

text \<open>
  \<^verbatim>\<open>kvrpcpb.KeyError\<close>: the code reads \<^verbatim>\<open>Locked\<close> only; the other members stand for
  the remaining kinds of key error.
\<close>

record KeyError =
  Locked :: "LockInfo option"
  Retryable :: string
  Abort :: string

text \<open>
  \<^verbatim>\<open>errorpb.Error\<close>: one optional sub-message per kind of region error. The code only
  tests the sub-messages against nil, so their contents are left out.
\<close>

record RegionError =
  Message :: string
  NotLeader :: "unit option"
  RegionNotFound :: "unit option"
  KeyNotInRegion :: "unit option"
  EpochNotMatch :: "unit option"
  ServerIsBusy :: "unit option"
  StaleCommand :: "unit option"
  StoreNotMatch :: "unit option"
  RaftEntryTooLarge :: "unit option"

record ClusterIDError =
  cid_Current :: u64
  cid_Request :: u64

text \<open>The oneof \<^verbatim>\<open>backup.Error.Detail\<close>; an unset oneof is \<open>None\<close>.\<close>

datatype Error_Detail =
  Error_KvError KeyError
| Error_RegionError RegionError
| Error_ClusterIdError ClusterIDError

record BackupError =
  Msg :: string
  Detail :: "Error_Detail option"

record File =
  file_Name :: string
  file_StartKey :: bytes
  file_EndKey :: bytes
  file_Crc64Xor :: u64
  file_TotalKvs :: u64
  file_TotalBytes :: u64
  file_StartVersion :: u64
  file_EndVersion :: u64

record BackupRequest =
  req_ClusterId :: u64
  req_StartKey :: bytes
  req_EndKey :: bytes
  req_StartVersion :: u64
  req_EndVersion :: u64
  req_Path :: string
  req_RateLimit :: u64
  req_Concurrency :: u32

record BackupResponse =
  resp_Error :: "BackupError option"
  resp_StartKey :: bytes
  resp_EndKey :: bytes
  resp_Files :: "File list"

record Schema =
  sch_Db :: bytes
  sch_Table :: bytes
  sch_Crc64Xor :: u64
  sch_TotalKvs :: u64
  sch_TotalBytes :: u64

record BackupMeta =
  meta_ClusterId :: u64
  meta_Path :: string
  meta_StartVersion :: u64
  meta_EndVersion :: u64
  meta_Schemas :: "Schema list"
  meta_Files :: "File list"

record Peer =
  peer_Id :: u64
  peer_StoreId :: u64

record Store =
  store_Id :: u64
  store_Address :: string

subsection \<open>Errors\<close>

text \<open>
  The error values of the program: the ones a collaborator returns (opaque to the
  client, and left unchanged by \<^verbatim>\<open>errors.Trace\<close>) and the ones the client creates.
\<close>

datatype error =
  ErrCollaborator string
| ErrNew string
| ErrOnBackupResponse Error_Detail
| ErrBackupError BackupError
| ErrSchemaNotFound string
| ErrCanNotFindRegion bytes

text \<open>
  How a call ends: it returns, the process exits in \<^verbatim>\<open>log.Fatal\<close>, a nil pointer or
  an index out of range panics, the call waits forever, or the call is still running
  when the model's fuel is spent.
\<close>

datatype 'a outcome = Returned 'a | LogFatal | Panicked | Blocked | OutOfFuel

subsection \<open>Ranges and the client\<close>

record Range =
  rg_StartKey :: bytes
  rg_EndKey :: bytes
  rg_Files :: "File list"

record ExternalStorage =
  st_Files :: "string \<rightharpoonup> bytes"

text \<open>
  The client. Of \<^verbatim>\<open>backupSchemas\<close> it holds the map \<^verbatim>\<open>meta\<close>, the checksum tasks
  started so far (database and table) and the number of idle workers of the pool.
\<close>

record BackupClient =
  clusterID :: u64
  backupMeta :: BackupMeta
  bs_meta :: "string \<rightharpoonup> Schema"
  bs_started :: "(string \<times> string) list"
  bs_idle :: nat
  storage :: "ExternalStorage option"

text \<open>The requests the client puts on the wire, in the order it sends them.\<close>

datatype rpc =
  PushBackupRpc BackupRequest "Store list"
| SendBackupRpc u64 BackupRequest



section \<open>The response classifier\<close>

text \<open>
  \<^verbatim>\<open>tikv.LockResolver.ResolveLocks(bo, locks)\<close> returns \<^verbatim>\<open>(msBeforeExpired, err)\<close>.
  The backoffer is only handed on to the resolver, so it is part of the resolver here;
  \<^verbatim>\<open>tikv.NewLock\<close> wraps the lock information without changing it, and
  \<^verbatim>\<open>int(msBeforeExpired)\<close> is the identity on a 64-bit target.
\<close>

type_synonym LockResolver = "LockInfo list \<Rightarrow> error + int"

text \<open>
  \<^verbatim>\<open>onBackupResponse\<close> returns \<^verbatim>\<open>(response, backoffMs, err)\<close>. The switch is on the
  oneof \<^verbatim>\<open>resp.Error.Detail\<close>; its \<^verbatim>\<open>default\<close> arm takes an unset detail.
\<close>

definition onBackupResponse ::
  "LockResolver \<Rightarrow> BackupResponse \<Rightarrow> BackupResponse option \<times> int \<times> error option" where
  "onBackupResponse lockResolver resp =
     (case resp_Error resp of
        None \<Rightarrow> (Some resp, 0, None)
      | Some e \<Rightarrow>
          (case Detail e of
             Some (Error_KvError v) \<Rightarrow>
               (case Locked v of
                  Some lockErr \<Rightarrow>
                    (case lockResolver [lockErr] of
                       Inl err1 \<Rightarrow> (None, 0, Some err1)
                     | Inr msBeforeExpired \<Rightarrow>
                         (None, (if 0 < msBeforeExpired then msBeforeExpired else 0), None))
                | None \<Rightarrow> (None, 0, Some (ErrOnBackupResponse (Error_KvError v))))
           | Some (Error_RegionError regionErr) \<Rightarrow>
               if \<not> (EpochNotMatch regionErr \<noteq> None \<or>
                     NotLeader regionErr \<noteq> None \<or>
                     RegionNotFound regionErr \<noteq> None \<or>
                     ServerIsBusy regionErr \<noteq> None \<or>
                     StaleCommand regionErr \<noteq> None \<or>
                     StoreNotMatch regionErr \<noteq> None)
               then (None, 0, Some (ErrOnBackupResponse (Error_RegionError regionErr)))
               else (None, 1000, None)
           | Some (Error_ClusterIdError v) \<Rightarrow> (None, 0, Some (ErrBackupError e))
           | None \<Rightarrow> (None, 0, Some (ErrBackupError e))))"

section \<open>The collaborators of a backup\<close>

text \<open>
  The placement driver, the storage nodes, the lock resolver, the backoffer, the
  push-down driver and the range tree are not part of \<^verbatim>\<open>full.go\<close>; they are
  parameters. A collaborator that answers over the network is indexed by the call it
  answers, so that an answer may change from one attempt to the next.

  \<^item> \<open>pd_GetAllStores env t\<close> and \<open>pushBackup env t req stores\<close> answer the
    \<^verbatim>\<open>backupRange\<close> that starts when \<open>t\<close> requests have been sent.
  \<^item> A call of \<^verbatim>\<open>handleFineGrained\<close> is named by \<open>(t, k, i)\<close>: the number of requests
    sent when \<^verbatim>\<open>fineGrainedBackup\<close> was entered, the round of its loop, and the place
    of the range among the round's incomplete ranges. The four workers of a round run
    side by side, so the name of a call does not depend on the order in which they run.
  \<^item> \<open>pd_GetRegion env c i key\<close> is the \<open>i\<close>-th lookup of \<^verbatim>\<open>findRegionLeader\<close> in the
    call \<open>c\<close>: an error, or the leader (nil when the driver knows none).
  \<^item> \<open>SendBackup env c storeID req\<close> is the stream of the call's backup request: the
    frames the store sends, then the end of the stream (\<open>None\<close>) or a transport error.
  \<^item> \<open>BackoffWithMaxSleep env t k ms\<close> is the backoff after round \<open>k\<close>.
  \<^item> \<open>select_order env t k\<close> and \<open>select_error env t k\<close> are the choices of the
    scheduler in round \<open>k\<close>: the order in which the workers' responses reach
    \<^verbatim>\<open>respCh\<close>, and whether and when the select statement takes \<^verbatim>\<open>errCh\<close>.
  \<^item> \<open>getIncompleteRange\<close>, \<open>putOk\<close> and \<open>ascend\<close> are the operations of the range
    tree \<open>'t\<close>.
  \<^item> \<open>CheckGCSafepoint env n ts\<close> is the \<open>n\<close>-th safepoint check of a job.
\<close>

type_synonym call_id = "nat \<times> nat \<times> nat"

record 't kv_env =
  pd_GetAllStores :: "nat \<Rightarrow> error + Store list"
  pd_GetRegion :: "call_id \<Rightarrow> nat \<Rightarrow> bytes \<Rightarrow> error + Peer option"
  EncodeBytes :: "bytes \<Rightarrow> bytes"
  pushBackup :: "nat \<Rightarrow> BackupRequest \<Rightarrow> Store list \<Rightarrow> error + 't"
  SendBackup :: "call_id \<Rightarrow> u64 \<Rightarrow> BackupRequest \<Rightarrow> BackupResponse list \<times> error option"
  ResolveLocks :: "call_id \<Rightarrow> LockResolver"
  BackoffWithMaxSleep :: "nat \<Rightarrow> nat \<Rightarrow> int \<Rightarrow> error option"
  select_order :: "nat \<Rightarrow> nat \<Rightarrow> nat list"
  select_error :: "nat \<Rightarrow> nat \<Rightarrow> (nat \<times> nat) option"
  getIncompleteRange :: "'t \<Rightarrow> bytes \<Rightarrow> bytes \<Rightarrow> Range list"
  putOk :: "'t \<Rightarrow> bytes \<Rightarrow> bytes \<Rightarrow> File list \<Rightarrow> 't"
  ascend :: "'t \<Rightarrow> Range list"
  CheckGCSafepoint :: "nat \<Rightarrow> u64 \<Rightarrow> error option"

section \<open>Fine-grained backup\<close>

text \<open>
  \<^verbatim>\<open>findRegionLeader\<close>: up to five lookups of the encoded key (\<open>i\<close> is the loop
  counter, \<open>n\<close> the number of lookups left); a lookup that fails or knows no leader is
  tried again.
\<close>

fun findRegionLeader_from :: "'t kv_env \<Rightarrow> call_id \<Rightarrow> bytes \<Rightarrow> nat \<Rightarrow> nat \<Rightarrow> error + Peer" where
  "findRegionLeader_from env c key i 0 = Inl (ErrCanNotFindRegion key)"
| "findRegionLeader_from env c key i (Suc n) =
     (case pd_GetRegion env c i key of
        Inl err \<Rightarrow> findRegionLeader_from env c key (Suc i) n
      | Inr None \<Rightarrow> findRegionLeader_from env c key (Suc i) n
      | Inr (Some leader) \<Rightarrow> Inr leader)"

definition findRegionLeader :: "'t kv_env \<Rightarrow> call_id \<Rightarrow> bytes \<Rightarrow> error + Peer" where
  "findRegionLeader env c key = findRegionLeader_from env c (EncodeBytes env key) 0 5"

text \<open>
  \<^verbatim>\<open>SendBackup\<close> calls the closure of \<^verbatim>\<open>handleFineGrained\<close> on every frame, in
  order, and returns the closure's first error, or how the stream ended.
  \<open>respFn\<close> runs the closure over the frames: \<open>max'\<close> is the variable \<^verbatim>\<open>max\<close>, and
  the second component of the result lists the responses the closure sent on
  \<^verbatim>\<open>respCh\<close>.
\<close>

fun respFn ::
  "LockResolver \<Rightarrow> int \<Rightarrow> BackupResponse list \<Rightarrow> error option
     \<Rightarrow> (error + int) \<times> BackupResponse list" where
  "respFn lockResolver max' [] eos =
     ((case eos of None \<Rightarrow> Inr max' | Some err \<Rightarrow> Inl err), [])"
| "respFn lockResolver max' (resp # frames) eos =
     (case onBackupResponse lockResolver resp of
        (response, backoffMs, Some err) \<Rightarrow> (Inl err, [])
      | (response, backoffMs, None) \<Rightarrow>
          (case respFn lockResolver (if max' < backoffMs then backoffMs else max') frames eos of
             (r, sent) \<Rightarrow>
               (r, (case response of Some x \<Rightarrow> x # sent | None \<Rightarrow> sent))))"

text \<open>
  \<^verbatim>\<open>handleFineGrained\<close> returns \<^verbatim>\<open>(max, err)\<close>; the model also returns the responses
  it sent on \<^verbatim>\<open>respCh\<close> and the requests it put on the wire.
\<close>

definition handleFineGrained ::
  "'t kv_env \<Rightarrow> call_id \<Rightarrow> u64 \<Rightarrow> Range \<Rightarrow> u64 \<Rightarrow> string \<Rightarrow> u64 \<Rightarrow> u32
     \<Rightarrow> (error + int) \<times> BackupResponse list \<times> rpc list" where
  "handleFineGrained env c cluster rg backupTS path rateLimit concurrency =
     (case findRegionLeader env c (rg_StartKey rg) of
        Inl pderr \<Rightarrow> (Inl pderr, [], [])
      | Inr leader \<Rightarrow>
          (let req = \<lparr>req_ClusterId = cluster,
                      req_StartKey = rg_StartKey rg,
                      req_EndKey = rg_EndKey rg,
                      req_StartVersion = backupTS,
                      req_EndVersion = backupTS,
                      req_Path = path,
                      req_RateLimit = rateLimit,
                      req_Concurrency = concurrency\<rparr>
           in (case SendBackup env c (peer_StoreId leader) req of
                 (frames, eos) \<Rightarrow>
                   (case respFn (ResolveLocks env c) 0 frames eos of
                      (r, sent) \<Rightarrow> (r, sent, [SendBackupRpc (peer_StoreId leader) req])))))"

text \<open>
  The workers of one round of \<^verbatim>\<open>fineGrainedBackup\<close>. Four goroutines take the
  incomplete ranges from the channel \<^verbatim>\<open>retry\<close>, which hands them out in the order of
  \<^verbatim>\<open>incomplete\<close>. A worker whose call fails sends the error on \<^verbatim>\<open>errCh\<close> and
  returns; the other workers go on taking ranges. So the range at place \<open>i\<close> is taken
  as long as fewer than four of the calls before it failed (\<open>alive\<close> counts the workers
  that are left), and after the fourth failure no range is taken any more. The result
  lists the calls made, in the order of dispatch: what each returned, the responses it
  sent on \<^verbatim>\<open>respCh\<close> and the requests it put on the wire.
\<close>

type_synonym worker_call = "(error + int) \<times> BackupResponse list \<times> rpc list"

fun fineGrained_workers ::
  "'t kv_env \<Rightarrow> nat \<Rightarrow> nat \<Rightarrow> nat \<Rightarrow> nat \<Rightarrow> u64 \<Rightarrow> u64 \<Rightarrow> string \<Rightarrow> u64 \<Rightarrow> u32 \<Rightarrow> Range list
     \<Rightarrow> worker_call list" where
  "fineGrained_workers env t k i alive cluster backupTS path rateLimit concurrency [] = []"
| "fineGrained_workers env t k i alive cluster backupTS path rateLimit concurrency (rg # rgs) =
     (if alive = 0 then []
      else
        (case handleFineGrained env (t, k, i) cluster rg backupTS path rateLimit concurrency of
           (Inl err, sent, reqs) \<Rightarrow>
             (Inl err, sent, reqs) #
               fineGrained_workers env t k (Suc i) (alive - 1) cluster backupTS path rateLimit
                 concurrency rgs
         | (Inr backoffMs, sent, reqs) \<Rightarrow>
             (Inr backoffMs, sent, reqs) #
               fineGrained_workers env t k (Suc i) alive cluster backupTS path rateLimit
                 concurrency rgs))"

text \<open>
  The errors the workers sent on \<^verbatim>\<open>errCh\<close>, and the shared \<^verbatim>\<open>max.ms\<close> once every
  worker has returned: a worker raises it after a call that returned no error and a
  backoff other than 0.
\<close>

fun worker_errors :: "worker_call list \<Rightarrow> error list" where
  "worker_errors [] = []"
| "worker_errors ((Inl err, sent, reqs) # calls) = err # worker_errors calls"
| "worker_errors ((Inr backoffMs, sent, reqs) # calls) = worker_errors calls"

fun max_ms :: "int \<Rightarrow> worker_call list \<Rightarrow> int" where
  "max_ms ms [] = ms"
| "max_ms ms ((Inl err, sent, reqs) # calls) = max_ms ms calls"
| "max_ms ms ((Inr backoffMs, sent, reqs) # calls) =
     max_ms (if backoffMs \<noteq> 0 \<and> ms < backoffMs then backoffMs else ms) calls"

text \<open>
  The responses of the calls reach \<^verbatim>\<open>respCh\<close> in an order that the scheduler chooses:
  those of one call in the order in which it sent them, those of different calls in any
  order (the orders in which a call overtakes an earlier call of its own worker are
  admitted too; the code has none of them). \<open>interleave picks sents\<close> takes, for every number in \<open>picks\<close>, the next
  response of the call at that place (a number that names no call, or a call with no
  response left, is passed over), and then what is left, call by call.
\<close>

fun interleave :: "nat list \<Rightarrow> 'a list list \<Rightarrow> 'a list" where
  "interleave [] sents = concat sents"
| "interleave (i # picks) sents =
     (if i < length sents then
        (case sents ! i of
           [] \<Rightarrow> interleave picks sents
         | x # xs \<Rightarrow> x # interleave picks (sents[i := xs]))
      else interleave picks sents)"

text \<open>
  The select loop over \<^verbatim>\<open>respCh\<close>: a response with an error ends the process in
  \<^verbatim>\<open>log.Fatal\<close> (\<open>None\<close>), any other is put into the tree. (The progress bar
  receives what the loop sends on \<^verbatim>\<open>updateCh\<close>.)
\<close>

fun selectLoop :: "'t kv_env \<Rightarrow> 't \<Rightarrow> BackupResponse list \<Rightarrow> 't option" where
  "selectLoop env tree [] = Some tree"
| "selectLoop env tree (resp # rest) =
     (if resp_Error resp \<noteq> None then None
      else selectLoop env
             (putOk env tree (resp_StartKey resp) (resp_EndKey resp) (resp_Files resp)) rest)"

text \<open>
  How the select statement of a round ends, and which responses it has received by
  then. \<open>errs\<close> are the errors of the round's workers, \<open>closed\<close> tells whether
  \<^verbatim>\<open>respCh\<close> gets closed (every range was taken and every worker returned), \<open>resps\<close>
  is what reaches \<^verbatim>\<open>respCh\<close>.

  \<^item> With no error on \<^verbatim>\<open>errCh\<close>, the loop receives every response and leaves at the
    closed channel (no worker failed, so every range was taken and \<^verbatim>\<open>respCh\<close> gets
    closed).
  \<^item> With an error on \<^verbatim>\<open>errCh\<close>, the choice \<open>Some (n, j)\<close> of the scheduler lets the
    select statement take \<^verbatim>\<open>errCh\<close> after \<open>n\<close> responses; the error it finds there is
    the one sent first, \<open>errs ! j\<close> (the first in the order of dispatch when \<open>j\<close> names
    none). The function returns it.
  \<^item> With the choice \<open>None\<close> the select statement prefers \<^verbatim>\<open>respCh\<close> as long as it is
    ready. If \<^verbatim>\<open>respCh\<close> gets closed, the loop leaves at the closed channel, and the
    errors that wait in the buffer of \<^verbatim>\<open>errCh\<close> are dropped with the channel. If it
    does not (all four workers returned with ranges left), \<^verbatim>\<open>errCh\<close> is all that is
    ready in the end.
\<close>

datatype select_end = ReturnErr error | BreakSelectLoop

definition select_schedule ::
  "(nat \<times> nat) option \<Rightarrow> error list \<Rightarrow> bool \<Rightarrow> BackupResponse list
     \<Rightarrow> BackupResponse list \<times> select_end" where
  "select_schedule choice errs closed resps =
     (case errs of
        [] \<Rightarrow> (resps, BreakSelectLoop)
      | e # es \<Rightarrow>
          (case choice of
             Some (n, j) \<Rightarrow> (take n resps, ReturnErr (if j < length errs then errs ! j else e))
           | None \<Rightarrow> (resps, if closed then BreakSelectLoop else ReturnErr e)))"

text \<open>
  The loop of \<^verbatim>\<open>fineGrainedBackup\<close>, from round \<open>k\<close>. It has no bound of its own, so
  the model takes fuel: one unit per round. The result is how the call ends, the tree
  and the requests sent. The requests of a round are listed call by call, each call's in
  order; when the function returns an error while workers are still running, the list
  holds what they send if the process lives long enough.
\<close>

fun fineGrainedBackup_from ::
  "nat \<Rightarrow> 't kv_env \<Rightarrow> nat \<Rightarrow> nat \<Rightarrow> u64 \<Rightarrow> rpc list \<Rightarrow> bytes \<Rightarrow> bytes \<Rightarrow> u64 \<Rightarrow> string \<Rightarrow> u64
     \<Rightarrow> u32 \<Rightarrow> 't \<Rightarrow> error option outcome \<times> 't \<times> rpc list" where
  "fineGrainedBackup_from 0 env t k cluster wire startKey endKey backupTS path rateLimit
     concurrency rangeTree = (OutOfFuel, rangeTree, wire)"
| "fineGrainedBackup_from (Suc fuel) env t k cluster wire startKey endKey backupTS path rateLimit
     concurrency rangeTree =
     (let incomplete = getIncompleteRange env rangeTree startKey endKey in
      if length incomplete = 0 then (Returned None, rangeTree, wire)
      else
        (let calls = fineGrained_workers env t k 0 4 cluster backupTS path rateLimit
                       concurrency incomplete;
             wire' = wire @ concat (map (\<lambda>(r, sent, reqs). reqs) calls);
             respCh = interleave (select_order env t k) (map (\<lambda>(r, sent, reqs). sent) calls)
         in (case select_schedule (select_error env t k) (worker_errors calls)
                    (length calls = length incomplete) respCh of
               (received, how) \<Rightarrow>
                 (case selectLoop env rangeTree received of
                    None \<Rightarrow> (LogFatal, rangeTree, wire')
                  | Some rangeTree' \<Rightarrow>
                      (case how of
                         ReturnErr err \<Rightarrow> (Returned (Some err), rangeTree', wire')
                       | BreakSelectLoop \<Rightarrow>
                           (let ms = max_ms 0 calls in
                            if ms \<noteq> 0 then
                              (case BackoffWithMaxSleep env t k ms of
                                 Some err \<Rightarrow> (Returned (Some err), rangeTree', wire')
                               | None \<Rightarrow>
                                   fineGrainedBackup_from fuel env t (Suc k) cluster wire'
                                     startKey endKey backupTS path rateLimit concurrency
                                     rangeTree')
                            else
                              fineGrainedBackup_from fuel env t (Suc k) cluster wire' startKey
                                endKey backupTS path rateLimit concurrency rangeTree'))))))"

text \<open>\<^verbatim>\<open>fineGrainedBackup\<close>, entered when the requests of \<open>wire\<close> have been sent.\<close>

definition fineGrainedBackup ::
  "nat \<Rightarrow> 't kv_env \<Rightarrow> u64 \<Rightarrow> rpc list \<Rightarrow> bytes \<Rightarrow> bytes \<Rightarrow> u64 \<Rightarrow> string \<Rightarrow> u64 \<Rightarrow> u32 \<Rightarrow> 't
     \<Rightarrow> error option outcome \<times> 't \<times> rpc list" where
  "fineGrainedBackup fuel env cluster wire startKey endKey backupTS path rateLimit concurrency
     rangeTree =
     fineGrainedBackup_from fuel env (length wire) 0 cluster wire startKey endKey backupTS path
       rateLimit concurrency rangeTree"

section \<open>Backing up ranges\<close>

text \<open>
  \<^verbatim>\<open>backupRange\<close>: the push-down round to every store, the fine-grained rounds over
  what is left, then the manifest takes the versions and the files of the tree in
  ascending order. \<open>wire\<close> lists the requests sent before the call.
  (\<^verbatim>\<open>checkDupFiles\<close> only logs.)
\<close>

definition backupRange ::
  "nat \<Rightarrow> 't kv_env \<Rightarrow> BackupClient \<Rightarrow> rpc list \<Rightarrow> bytes \<Rightarrow> bytes \<Rightarrow> string \<Rightarrow> u64 \<Rightarrow> u64 \<Rightarrow> u32
     \<Rightarrow> error option outcome \<times> BackupClient \<times> rpc list" where
  "backupRange fuel env bc wire startKey endKey path backupTS rateMBs concurrency =
     (let rateLimit = rateMBs * 1024 * 1024 in
      case pd_GetAllStores env (length wire) of
        Inl err \<Rightarrow> (Returned (Some err), bc, wire)
      | Inr allStores \<Rightarrow>
          (let req = \<lparr>req_ClusterId = clusterID bc,
                      req_StartKey = startKey,
                      req_EndKey = endKey,
                      req_StartVersion = backupTS,
                      req_EndVersion = backupTS,
                      req_Path = path,
                      req_RateLimit = rateLimit,
                      req_Concurrency = concurrency\<rparr>
           in (case pushBackup env (length wire) req allStores of
                 Inl err \<Rightarrow> (Returned (Some err), bc, wire @ [PushBackupRpc req allStores])
               | Inr results \<Rightarrow>
                   (case fineGrainedBackup fuel env (clusterID bc)
                           (wire @ [PushBackupRpc req allStores]) startKey endKey backupTS path
                           rateLimit concurrency results of
                      (Returned None, results', wire') \<Rightarrow>
                        (Returned None,
                         bc\<lparr>backupMeta := (backupMeta bc)
                              \<lparr>meta_StartVersion := backupTS,
                               meta_EndVersion := backupTS,
                               meta_Files := meta_Files (backupMeta bc) @
                                 concat (map rg_Files (ascend env results'))\<rparr>\<rparr>,
                         wire')
                    | (out, results', wire') \<Rightarrow> (out, bc, wire')))))"

text \<open>
  The goroutine of \<^verbatim>\<open>BackupRanges\<close> backs the ranges up one after the other. It ends
  by closing \<^verbatim>\<open>errCh\<close>, by sending the first error of a range on it, with the
  process, or not within the fuel.
\<close>

datatype pipeline_end = ErrChClosed | ErrChSent error | ProcessExit | StillRunning

fun BackupRanges_pipeline ::
  "nat \<Rightarrow> 't kv_env \<Rightarrow> BackupClient \<Rightarrow> rpc list \<Rightarrow> Range list \<Rightarrow> string \<Rightarrow> u64 \<Rightarrow> u64 \<Rightarrow> u32
     \<Rightarrow> pipeline_end \<times> BackupClient \<times> rpc list" where
  "BackupRanges_pipeline fuel env bc wire [] path backupTS rate concurrency =
     (ErrChClosed, bc, wire)"
| "BackupRanges_pipeline fuel env bc wire (r # ranges) path backupTS rate concurrency =
     (case backupRange fuel env bc wire (rg_StartKey r) (rg_EndKey r) path backupTS rate
             concurrency of
        (Returned None, bc', wire') \<Rightarrow>
          BackupRanges_pipeline fuel env bc' wire' ranges path backupTS rate concurrency
      | (Returned (Some err), bc', wire') \<Rightarrow> (ErrChSent err, bc', wire')
      | (LogFatal, bc', wire') \<Rightarrow> (ProcessExit, bc', wire')
      | (Panicked, bc', wire') \<Rightarrow> (ProcessExit, bc', wire')
      | (Blocked, bc', wire') \<Rightarrow> (StillRunning, bc', wire')
      | (OutOfFuel, bc', wire') \<Rightarrow> (StillRunning, bc', wire'))"

text \<open>
  What the select statement of \<^verbatim>\<open>BackupRanges\<close> receives: a tick of the 30-second
  ticker, or \<^verbatim>\<open>(err, ok)\<close> from \<^verbatim>\<open>errCh\<close> (\<open>(None, False)\<close> once the channel is
  closed).
\<close>

datatype select_event = TickerC | ErrCh "error option" bool

text \<open>
  The supervising loop of \<^verbatim>\<open>BackupRanges\<close>, over the events its select statement
  receives. \<open>n\<close> counts the safepoint checks made before the iteration. The result is
  what the loop returns (\<open>None\<close> while it waits in the select statement with no event
  left) and the number of checks made.
\<close>

fun BackupRanges_loop ::
  "'t kv_env \<Rightarrow> u64 \<Rightarrow> nat \<Rightarrow> bool \<Rightarrow> select_event list \<Rightarrow> error option option \<times> nat" where
  "BackupRanges_loop env backupTS n finished evs =
     (let err = CheckGCSafepoint env n backupTS in
      if finished then (Some err, Suc n)
      else
        (case evs of
           [] \<Rightarrow> (None, Suc n)
         | TickerC # rest \<Rightarrow> BackupRanges_loop env backupTS (Suc n) finished rest
         | ErrCh err' ok # rest \<Rightarrow>
             (case err' of
                Some e \<Rightarrow> (Some (Some e), Suc n)
              | None \<Rightarrow>
                  BackupRanges_loop env backupTS (Suc n) (if \<not> ok then True else finished)
                    rest)))"

text \<open>
  \<^verbatim>\<open>BackupRanges\<close>: the pipeline runs beside the loop; \<open>ticks\<close> is the number of
  ticks the select statement takes before it takes the pipeline's end from \<^verbatim>\<open>errCh\<close>.
  The result is how the call ends, the client, the requests sent and the number of
  safepoint checks made.
\<close>

definition BackupRanges ::
  "nat \<Rightarrow> nat \<Rightarrow> 't kv_env \<Rightarrow> BackupClient \<Rightarrow> rpc list \<Rightarrow> Range list \<Rightarrow> string \<Rightarrow> u64 \<Rightarrow> u64 \<Rightarrow> u32
     \<Rightarrow> error option outcome \<times> BackupClient \<times> rpc list \<times> nat" where
  "BackupRanges fuel ticks env bc wire ranges path backupTS rate concurrency =
     (case BackupRanges_pipeline fuel env bc wire ranges path backupTS rate concurrency of
        (ProcessExit, bc', wire') \<Rightarrow>
          (LogFatal, bc', wire',
           snd (BackupRanges_loop env backupTS 0 False (replicate ticks TickerC)))
      | (StillRunning, bc', wire') \<Rightarrow>
          (OutOfFuel, bc', wire',
           snd (BackupRanges_loop env backupTS 0 False (replicate ticks TickerC)))
      | (ErrChClosed, bc', wire') \<Rightarrow>
          (case BackupRanges_loop env backupTS 0 False
                  (replicate ticks TickerC @ [ErrCh None False]) of
             (Some err, checks) \<Rightarrow> (Returned err, bc', wire', checks)
           | (None, checks) \<Rightarrow> (OutOfFuel, bc', wire', checks))
      | (ErrChSent e, bc', wire') \<Rightarrow>
          (case BackupRanges_loop env backupTS 0 False
                  (replicate ticks TickerC @ [ErrCh (Some e) True]) of
             (Some err, checks) \<Rightarrow> (Returned err, bc', wire', checks)
           | (None, checks) \<Rightarrow> (OutOfFuel, bc', wire', checks)))"

section \<open>The snapshot timestamp\<close>

record Timestamp =
  Physical :: i64
  Logical :: i64

text \<open>
  Modelled from the spec: \<^verbatim>\<open>meta.EncodeTs\<close> is not among the sources. The spec gives
  the encoding bit by bit: "64-bit \<^verbatim>\<open>(physical_ms << 18) | (logical & ((1<<18)-1))\<close>".
\<close>

definition EncodeTs :: "Timestamp \<Rightarrow> u64" where
  "EncodeTs ts = push_bit 18 (Physical ts) OR (Logical ts AND (push_bit 18 1 - 1))"

text \<open>
  Modelled from the spec: the physical part of an encoded timestamp, the inverse of
  "\<^verbatim>\<open>(Physical_ms << 18) | Logical_18bits\<close>" on its upper 46 bits.
\<close>

definition ts_Physical :: "u64 \<Rightarrow> i64" where
  "ts_Physical ts = drop_bit 18 ts"

text \<open>Go's \<^verbatim>\<open>/\<close> on \<^verbatim>\<open>int64\<close> truncates towards zero.\<close>

definition i64_div :: "i64 \<Rightarrow> i64 \<Rightarrow> i64" where
  "i64_div a b = word_of_int (sint a sdiv sint b)"

text \<open>
  What \<^verbatim>\<open>GetTS\<close> asks of its collaborators: the placement driver's timestamp
  \<^verbatim>\<open>(p, l, err)\<close>, \<^verbatim>\<open>time.ParseDuration\<close> (a duration is a number of nanoseconds) and
  the GC safepoint.
\<close>

record ts_env =
  pd_GetTS :: "error + i64 \<times> i64"
  ParseDuration :: "string \<Rightarrow> error + i64"
  GetGCSafePoint :: "error + Timestamp"

definition Millisecond :: i64 where
  "Millisecond = 1000000"

definition GetTS :: "ts_env \<Rightarrow> string \<Rightarrow> error + u64" where
  "GetTS env timeAgo =
     (case pd_GetTS env of
        Inl err \<Rightarrow> Inl err
      | Inr (p, l) \<Rightarrow>
          if timeAgo \<noteq> '''' then
            (case ParseDuration env timeAgo of
               Inl err \<Rightarrow> Inl err
             | Inr duration \<Rightarrow>
                 (let t = i64_div duration Millisecond in
                  case GetGCSafePoint env of
                    Inl err \<Rightarrow> Inl err
                  | Inr safePoint \<Rightarrow>
                      if p - t <s Physical safePoint
                      then Inl (ErrNew ''given backup time exceed GCSafePoint'')
                      else Inr (EncodeTs \<lparr>Physical = p - t, Logical = l\<rparr>)))
          else Inr (EncodeTs \<lparr>Physical = p, Logical = l\<rparr>))"

section \<open>The external storage\<close>

text \<open>
  Modelled from the spec: \<^verbatim>\<open>utils.ExternalStorage\<close> and \<^verbatim>\<open>utils.MetaFile\<close> are not
  among the sources. The spec: "External storage backend: \<^verbatim>\<open>Exists(name)\<close>,
  \<^verbatim>\<open>Write(name, bytes)\<close>" and "The manifest file name is \<^verbatim>\<open>backupmeta\<close>".
\<close>

definition MetaFile :: string where
  "MetaFile = ''backupmeta''"

definition FileExists :: "ExternalStorage \<Rightarrow> string \<Rightarrow> bool" where
  "FileExists s name = (st_Files s name \<noteq> None)"

text \<open>
  \<^verbatim>\<open>SetStorage\<close>; \<open>CreateStorage\<close> is \<^verbatim>\<open>utils.CreateStorage\<close>, a parameter. The
  assignment to \<^verbatim>\<open>bc.storage\<close> happens before the error is looked at.
\<close>

definition SetStorage ::
  "(string \<Rightarrow> error + ExternalStorage) \<Rightarrow> BackupClient \<Rightarrow> string \<Rightarrow> error option \<times> BackupClient" where
  "SetStorage CreateStorage bc base =
     (case CreateStorage base of
        Inl err \<Rightarrow> (Some err, bc\<lparr>storage := None\<rparr>)
      | Inr s \<Rightarrow>
          if FileExists s MetaFile
          then (Some (ErrNew ''backup meta exists, may be some backup files in the path already''),
                bc\<lparr>storage := Some s\<rparr>)
          else (None, bc\<lparr>storage := Some s\<rparr>))"

section \<open>Planning the ranges from the catalog\<close>

text \<open>
  The catalog's \<^verbatim>\<open>model.CIStr\<close>, \<^verbatim>\<open>model.PartitionInfo\<close>, \<^verbatim>\<open>model.TableInfo\<close> and
  \<^verbatim>\<open>model.DBInfo\<close>, with the members the client reads. \<open>tbl_PartitionInfo\<close> is what
  \<^verbatim>\<open>GetPartitionInfo()\<close> returns: nil for a table that is not partitioned.
\<close>

record CIStr =
  cistr_O :: string
  cistr_L :: string

record PartitionDefinition =
  pdef_ID :: i64
  pdef_Name :: CIStr

record PartitionInfo =
  Definitions :: "PartitionDefinition list"

record TableInfo =
  tbl_ID :: i64
  tbl_Name :: CIStr
  tbl_AutoIncID :: i64
  tbl_PartitionInfo :: "PartitionInfo option"

record DBInfo =
  db_ID :: i64
  db_Name :: CIStr
  db_Tables :: "TableInfo list"

record tableRange =
  startID :: i64
  endID :: i64

text \<open>
  What planning asks of its collaborators: the databases of the snapshot
  (\<^verbatim>\<open>GetSnapshotInfoSchema\<close>, then \<^verbatim>\<open>AllSchemas\<close>), \<^verbatim>\<open>json.Marshal\<close>, the
  allocator's \<^verbatim>\<open>NextGlobalAutoID\<close> (by database and table), \<^verbatim>\<open>session.CreateSession\<close>
  (by the number of checksum tasks started before it),
  \<^verbatim>\<open>tablecodec.GenTablePrefix\<close>, and the lookups \<^verbatim>\<open>SchemaByName\<close> and
  \<^verbatim>\<open>TableByName\<close> in the databases of the snapshot.
\<close>

record catalog_env =
  GetSnapshotInfoSchema :: "u64 \<Rightarrow> error + DBInfo list"
  SchemaByName :: "DBInfo list \<Rightarrow> string \<Rightarrow> DBInfo option"
  TableByName :: "DBInfo list \<Rightarrow> string \<Rightarrow> string \<Rightarrow> error + TableInfo"
  json_Marshal_DBInfo :: "DBInfo \<Rightarrow> error + bytes"
  json_Marshal_TableInfo :: "TableInfo \<Rightarrow> error + bytes"
  NextGlobalAutoID :: "i64 \<Rightarrow> i64 \<Rightarrow> error + i64"
  CreateSession :: "nat \<Rightarrow> error option"
  GenTablePrefix :: "i64 \<Rightarrow> bytes"

definition tableRange_Range :: "catalog_env \<Rightarrow> tableRange \<Rightarrow> Range" where
  "tableRange_Range env tr =
     \<lparr>rg_StartKey = GenTablePrefix env (startID tr),
      rg_EndKey = GenTablePrefix env (endID tr),
      rg_Files = []\<rparr>"

definition buildTableRanges :: "TableInfo \<Rightarrow> tableRange list" where
  "buildTableRanges tbl =
     (case tbl_PartitionInfo tbl of
        None \<Rightarrow> [\<lparr>startID = tbl_ID tbl, endID = tbl_ID tbl + 1\<rparr>]
      | Some pis \<Rightarrow>
          map (\<lambda>def. \<lparr>startID = pdef_ID def, endID = pdef_ID def + 1\<rparr>) (Definitions pis))"

text \<open>
  Modelled from the spec: \<^verbatim>\<open>utils.WorkerPool\<close> is not among the sources. The spec: "A
  bounded worker pool (size = min(100, 8 \<times> #stores)) runs one checksum task per
  registered schema." \<^verbatim>\<open>Apply\<close> takes an idle worker and waits when there is none. A
  worker of \<^verbatim>\<open>startTableChecksum\<close> stays busy until \<^verbatim>\<open>finishTableChecksum\<close> receives
  what it sends, and that runs after planning (the source notes "It may block backup if
  len(table) > len(workers)"): \<open>None\<close> is the call that waits forever.
\<close>

definition startTableChecksum ::
  "BackupClient \<Rightarrow> Schema \<Rightarrow> string \<Rightarrow> string \<Rightarrow> BackupClient option" where
  "startTableChecksum bc schema dbName tableName =
     (let name = dbName @ ''.'' @ tableName in
      if bs_idle bc = 0 then None
      else Some (bc\<lparr>bs_meta := (bs_meta bc)(name \<mapsto> schema),
                    bs_started := bs_started bc @ [(dbName, tableName)],
                    bs_idle := bs_idle bc - 1\<rparr>))"

definition SystemDatabases :: "string list" where
  "SystemDatabases = [''information_schema'', ''performance_schema'', ''mysql'']"

text \<open>
  The loop over the tables of one database. The result is \<open>None\<close> when the call waits
  forever for a worker, else what the function returns so far: an error, or the ranges.
\<close>

fun PreBackup_tables ::
  "catalog_env \<Rightarrow> u64 \<Rightarrow> DBInfo \<Rightarrow> bytes \<Rightarrow> BackupClient \<Rightarrow> Range list \<Rightarrow> TableInfo list
     \<Rightarrow> (error + Range list) option \<times> BackupClient" where
  "PreBackup_tables env backupTS dbInfo dbData bc ranges [] = (Some (Inr ranges), bc)"
| "PreBackup_tables env backupTS dbInfo dbData bc ranges (tableInfo # rest) =
     (case NextGlobalAutoID env (db_ID dbInfo) (tbl_ID tableInfo) of
        Inl err \<Rightarrow> (Some (Inl err), bc)
      | Inr globalAutoID \<Rightarrow>
          (let tableInfo' = tableInfo\<lparr>tbl_AutoIncID := globalAutoID\<rparr> in
           case json_Marshal_TableInfo env tableInfo' of
             Inl err \<Rightarrow> (Some (Inl err), bc)
           | Inr tableData \<Rightarrow>
               (let backupSchema = \<lparr>sch_Db = dbData, sch_Table = tableData,
                                     sch_Crc64Xor = 0, sch_TotalKvs = 0, sch_TotalBytes = 0\<rparr>
                in case CreateSession env (length (bs_started bc)) of
                     Some err \<Rightarrow> (Some (Inl err), bc)
                   | None \<Rightarrow>
                       (case startTableChecksum bc backupSchema (cistr_L (db_Name dbInfo))
                               (cistr_L (tbl_Name tableInfo')) of
                          None \<Rightarrow> (None, bc)
                        | Some bc' \<Rightarrow>
                            PreBackup_tables env backupTS dbInfo dbData bc'
                              (ranges @ map (tableRange_Range env) (buildTableRanges tableInfo'))
                              rest))))"

text \<open>The loop \<^verbatim>\<open>LoadDb\<close> over the databases.\<close>

fun PreBackup_dbs ::
  "catalog_env \<Rightarrow> u64 \<Rightarrow> BackupClient \<Rightarrow> Range list \<Rightarrow> DBInfo list
     \<Rightarrow> (error + Range list) option \<times> BackupClient" where
  "PreBackup_dbs env backupTS bc ranges [] = (Some (Inr ranges), bc)"
| "PreBackup_dbs env backupTS bc ranges (dbInfo # rest) =
     (if list_ex (\<lambda>sysDbName. sysDbName = cistr_L (db_Name dbInfo)) SystemDatabases
      then PreBackup_dbs env backupTS bc ranges rest
      else
        (case json_Marshal_DBInfo env dbInfo of
           Inl err \<Rightarrow> (Some (Inl err), bc)
         | Inr dbData \<Rightarrow>
             (case PreBackup_tables env backupTS dbInfo dbData bc ranges (db_Tables dbInfo) of
                (Some (Inr ranges'), bc') \<Rightarrow> PreBackup_dbs env backupTS bc' ranges' rest
              | (stop, bc') \<Rightarrow> (stop, bc'))))"

definition PreBackupAllTableRanges ::
  "catalog_env \<Rightarrow> BackupClient \<Rightarrow> u64 \<Rightarrow> (error + Range list) option \<times> BackupClient" where
  "PreBackupAllTableRanges env bc backupTS =
     (case GetSnapshotInfoSchema env backupTS of
        Inl err \<Rightarrow> (Some (Inl err), bc)
      | Inr dbInfos \<Rightarrow> PreBackup_dbs env backupTS bc [] dbInfos)"

text \<open>\<^verbatim>\<open>PreBackupTableRanges\<close>, for one table.\<close>

definition PreBackupTableRanges ::
  "catalog_env \<Rightarrow> BackupClient \<Rightarrow> string \<Rightarrow> string \<Rightarrow> string \<Rightarrow> u64
     \<Rightarrow> (error + Range list) option \<times> BackupClient" where
  "PreBackupTableRanges env bc dbName tableName path backupTS =
     (case CreateSession env (length (bs_started bc)) of
        Some err \<Rightarrow> (Some (Inl err), bc)
      | None \<Rightarrow>
     (case GetSnapshotInfoSchema env backupTS of
        Inl err \<Rightarrow> (Some (Inl err), bc)
      | Inr info \<Rightarrow>
     (case SchemaByName env info dbName of
        None \<Rightarrow> (Some (Inl (ErrSchemaNotFound dbName)), bc)
      | Some dbInfo \<Rightarrow>
     (case TableByName env info dbName tableName of
        Inl err \<Rightarrow> (Some (Inl err), bc)
      | Inr tableInfo \<Rightarrow>
     (case NextGlobalAutoID env (db_ID dbInfo) (tbl_ID tableInfo) of
        Inl err \<Rightarrow> (Some (Inl err), bc)
      | Inr globalAutoID \<Rightarrow>
     (let tableInfo' = tableInfo\<lparr>tbl_AutoIncID := globalAutoID\<rparr> in
      case json_Marshal_DBInfo env dbInfo of
        Inl err \<Rightarrow> (Some (Inl err), bc)
      | Inr dbData \<Rightarrow>
     (case json_Marshal_TableInfo env tableInfo' of
        Inl err \<Rightarrow> (Some (Inl err), bc)
      | Inr tableData \<Rightarrow>
     (let backupSchema = \<lparr>sch_Db = dbData, sch_Table = tableData,
                           sch_Crc64Xor = 0, sch_TotalKvs = 0, sch_TotalBytes = 0\<rparr>
      in case startTableChecksum bc backupSchema (cistr_L (db_Name dbInfo))
                (cistr_L (tbl_Name tableInfo')) of
           None \<Rightarrow> (None, bc)
         | Some bc' \<Rightarrow>
             (Some (Inr (map (tableRange_Range env) (buildTableRanges tableInfo'))), bc')))))))))"

section \<open>The schema checksums\<close>

record tableChecksum =
  tc_name :: string
  tc_checksum :: u64
  tc_totalKvs :: u64
  tc_totalBytes :: u64

text \<open>
  What the checksum tasks ask of their collaborators: \<^verbatim>\<open>utils.EncloseName\<close>, the
  session's \<^verbatim>\<open>Execute\<close> on the statement (a record set is given by what
  \<^verbatim>\<open>utils.ResultSetToStringSlice\<close> makes of it) and \<^verbatim>\<open>strconv.ParseUint\<close>.
\<close>

record sql_env =
  EncloseName :: "string \<Rightarrow> string"
  Execute :: "string \<Rightarrow> error + (error + string list list) list"
  ParseUint :: "string \<Rightarrow> error + u64"

text \<open>Go's index expression \<^verbatim>\<open>xs[i]\<close>: out of range, it panics.\<close>

definition index :: "'a list \<Rightarrow> nat \<Rightarrow> 'a option" where
  "index xs i = (if i < length xs then Some (xs ! i) else None)"

definition getChecksumFromTiDB ::
  "sql_env \<Rightarrow> string \<Rightarrow> string \<Rightarrow> (error + tableChecksum) outcome" where
  "getChecksumFromTiDB env dbName tableName =
     (case Execute env (''ADMIN CHECKSUM TABLE '' @ EncloseName env dbName @ ''.'' @
                          EncloseName env tableName) of
        Inl err \<Rightarrow> Returned (Inl err)
      | Inr recordSets \<Rightarrow>
          (case index recordSets 0 of
             None \<Rightarrow> Panicked
           | Some (Inl err) \<Rightarrow> Returned (Inl err)
           | Some (Inr records) \<Rightarrow>
               (case index records 0 of
                  None \<Rightarrow> Panicked
                | Some record \<Rightarrow>
                    (case index record 2 of
                       None \<Rightarrow> Panicked
                     | Some r2 \<Rightarrow>
                         (case ParseUint env r2 of
                            Inl err \<Rightarrow> Returned (Inl err)
                          | Inr checksum \<Rightarrow>
                              (case index record 3 of
                                 None \<Rightarrow> Panicked
                               | Some r3 \<Rightarrow>
                                   (case ParseUint env r3 of
                                      Inl err \<Rightarrow> Returned (Inl err)
                                    | Inr totalKvs \<Rightarrow>
                                        (case index record 4 of
                                           None \<Rightarrow> Panicked
                                         | Some r4 \<Rightarrow>
                                             (case ParseUint env r4 of
                                                Inl err \<Rightarrow> Returned (Inl err)
                                              | Inr totalBytes \<Rightarrow>
                                                  Returned (Inr \<lparr>tc_name = '''',
                                                    tc_checksum = checksum,
                                                    tc_totalKvs = totalKvs,
                                                    tc_totalBytes = totalBytes\<rparr>))))))))))"

text \<open>
  \<^verbatim>\<open>finishTableChecksum\<close> receives what the tasks send, in the order they send it;
  the model takes the tasks in the order they were started. \<^verbatim>\<open>meta\<close> maps a name to a
  pointer, and the list the function returns holds these pointers: the model returns the
  names received and the final map.
\<close>

fun finishTableChecksum_loop ::
  "sql_env \<Rightarrow> (string \<rightharpoonup> Schema) \<Rightarrow> string list \<Rightarrow> (string \<times> string) list
     \<Rightarrow> (error + (string \<rightharpoonup> Schema) \<times> string list) outcome" where
  "finishTableChecksum_loop env meta schemas [] = Returned (Inr (meta, schemas))"
| "finishTableChecksum_loop env meta schemas ((dbName, tableName) # tasks) =
     (case getChecksumFromTiDB env dbName tableName of
        Returned (Inl err) \<Rightarrow> Returned (Inl err)
      | Returned (Inr c) \<Rightarrow>
          (let checksum = c\<lparr>tc_name := dbName @ ''.'' @ tableName\<rparr> in
           case meta (tc_name checksum) of
             None \<Rightarrow> Panicked
           | Some s \<Rightarrow>
               finishTableChecksum_loop env
                 (meta(tc_name checksum \<mapsto>
                    s\<lparr>sch_Crc64Xor := tc_checksum checksum,
                      sch_TotalKvs := tc_totalKvs checksum,
                      sch_TotalBytes := tc_totalBytes checksum\<rparr>))
                 (schemas @ [tc_name checksum]) tasks)
      | Panicked \<Rightarrow> Panicked
      | LogFatal \<Rightarrow> LogFatal
      | Blocked \<Rightarrow> Blocked
      | OutOfFuel \<Rightarrow> OutOfFuel)"

definition CompleteMeta :: "sql_env \<Rightarrow> BackupClient \<Rightarrow> error option outcome \<times> BackupClient" where
  "CompleteMeta env bc =
     (case finishTableChecksum_loop env (bs_meta bc) [] (bs_started bc) of
        Returned (Inl err) \<Rightarrow> (Returned (Some err), bc)
      | Returned (Inr (meta, schemas)) \<Rightarrow>
          (Returned None,
           bc\<lparr>bs_meta := meta,
              backupMeta := (backupMeta bc)
                \<lparr>meta_Schemas :=
                   concat (map (\<lambda>name. case meta name of Some s \<Rightarrow> [s] | None \<Rightarrow> []) schemas)\<rparr>\<rparr>)
      | Panicked \<Rightarrow> (Panicked, bc)
      | LogFatal \<Rightarrow> (LogFatal, bc)
      | Blocked \<Rightarrow> (Blocked, bc)
      | OutOfFuel \<Rightarrow> (OutOfFuel, bc))"

section \<open>The fast checksum\<close>

text \<open>
  \<^verbatim>\<open>utils.LoadBackupTables\<close>, \<^verbatim>\<open>utils.Database\<close> (the type \<open>'db\<close>) and its method
  \<^verbatim>\<open>GetTable\<close> are not among the sources: they are parameters. Of a \<^verbatim>\<open>utils.Table\<close>
  the code reads \<^verbatim>\<open>Files\<close> only. \<^verbatim>\<open>Name.String()\<close> is the name as written
  (\<open>cistr_O\<close>).
\<close>

record Table =
  tb_Files :: "File list"

record 'db fc_env =
  LoadBackupTables :: "BackupMeta \<Rightarrow> error + (string \<rightharpoonup> 'db)"
  GetTable :: "'db \<Rightarrow> string \<Rightarrow> Table option"
  json_Unmarshal_DBInfo :: "bytes \<Rightarrow> error + DBInfo"
  json_Unmarshal_TableInfo :: "bytes \<Rightarrow> error + TableInfo"

text \<open>The loop over the files of a table: the running \<^verbatim>\<open>(checksum, totalKvs, totalBytes)\<close>.\<close>

fun FastChecksum_files :: "u64 \<times> u64 \<times> u64 \<Rightarrow> File list \<Rightarrow> u64 \<times> u64 \<times> u64" where
  "FastChecksum_files acc [] = acc"
| "FastChecksum_files (checksum, totalKvs, totalBytes) (file # files) =
     FastChecksum_files
       (checksum XOR file_Crc64Xor file,
        totalKvs + file_TotalKvs file,
        totalBytes + file_TotalBytes file) files"

text \<open>
  The loop over the schemas of the manifest. A database that \<^verbatim>\<open>dbs\<close> does not hold is
  a nil pointer, and so is a table that \<^verbatim>\<open>GetTable\<close> does not find: reading it panics.
\<close>

fun FastChecksum_schemas ::
  "'db fc_env \<Rightarrow> (string \<rightharpoonup> 'db) \<Rightarrow> Schema list \<Rightarrow> (bool \<times> error option) outcome" where
  "FastChecksum_schemas env dbs [] = Returned (True, None)"
| "FastChecksum_schemas env dbs (schema # schemas) =
     (case json_Unmarshal_DBInfo env (sch_Db schema) of
        Inl err \<Rightarrow> Returned (False, Some err)
      | Inr dbInfo \<Rightarrow>
          (case json_Unmarshal_TableInfo env (sch_Table schema) of
             Inl err \<Rightarrow> Returned (False, Some err)
           | Inr tblInfo \<Rightarrow>
               (case dbs (cistr_O (db_Name dbInfo)) of
                  None \<Rightarrow> Panicked
                | Some db \<Rightarrow>
                    (case GetTable env db (cistr_O (tbl_Name tblInfo)) of
                       None \<Rightarrow> Panicked
                     | Some tbl \<Rightarrow>
                         (case FastChecksum_files (0, 0, 0) (tb_Files tbl) of
                            (checksum, totalKvs, totalBytes) \<Rightarrow>
                              if sch_Crc64Xor schema = checksum \<and>
                                 sch_TotalKvs schema = totalKvs \<and>
                                 sch_TotalBytes schema = totalBytes
                              then FastChecksum_schemas env dbs schemas
                              else Returned (False, None))))))"

definition FastChecksum :: "'db fc_env \<Rightarrow> BackupClient \<Rightarrow> (bool \<times> error option) outcome" where
  "FastChecksum env bc =
     (case LoadBackupTables env (backupMeta bc) of
        Inl err \<Rightarrow> Returned (False, Some err)
      | Inr dbs \<Rightarrow> FastChecksum_schemas env dbs (meta_Schemas (backupMeta bc)))"

section \<open>The commands\<close>

text \<open>
  What a command asks of its collaborators beyond the ones above:
  \<^verbatim>\<open>GetDefaultBacker\<close>, \<^verbatim>\<open>session.BootstrapSession\<close>, the cluster id, the flags,
  \<^verbatim>\<open>utils.CreateStorage\<close>, the backer's \<^verbatim>\<open>GetRegionCount\<close>, \<^verbatim>\<open>proto.Marshal\<close> and
  the storage's \<^verbatim>\<open>Write\<close>.
\<close>

record ('t, 'db) cli_env =
  GetDefaultBacker :: "error option"
  BootstrapSession :: "error option"
  pd_GetClusterID :: u64
  flag_storage :: "error + string"
  flag_timeago :: "error + string"
  flag_ratelimit :: "error + u64"
  flag_concurrency :: "error + u32"
  flag_checksum :: "error + bool"
  flag_db :: "error + string"
  flag_table :: "error + string"
  CreateStorage :: "string \<Rightarrow> error + ExternalStorage"
  GetRegionCount :: "error + int"
  proto_Marshal :: "BackupMeta \<Rightarrow> error + bytes"
  storage_Write :: "string \<Rightarrow> bytes \<Rightarrow> error option"
  env_ts :: ts_env
  env_catalog :: catalog_env
  env_kv :: "'t kv_env"
  env_sql :: sql_env
  env_fc :: "'db fc_env"

definition NewBackupClient :: "('t, 'db) cli_env \<Rightarrow> error + BackupClient" where
  "NewBackupClient env =
     (case pd_GetAllStores (env_kv env) 0 of
        Inl err \<Rightarrow> Inl err
      | Inr stores \<Rightarrow>
          (case BootstrapSession env of
             Some err \<Rightarrow> Inl err
           | None \<Rightarrow>
               (let poolSize = (if 100 < length stores * 8 then 100 else length stores * 8) in
                Inr \<lparr>clusterID = pd_GetClusterID env,
                     backupMeta = \<lparr>meta_ClusterId = 0, meta_Path = '''',
                                   meta_StartVersion = 0, meta_EndVersion = 0,
                                   meta_Schemas = [], meta_Files = []\<rparr>,
                     bs_meta = Map.empty,
                     bs_started = [],
                     bs_idle = poolSize,
                     storage = None\<rparr>)))"

text \<open>
  \<^verbatim>\<open>SaveBackupMeta\<close>: a successful \<^verbatim>\<open>Write\<close> leaves the data under the name in the
  storage.
\<close>

definition SaveBackupMeta ::
  "('t, 'db) cli_env \<Rightarrow> BackupClient \<Rightarrow> string \<Rightarrow> error option outcome \<times> BackupClient" where
  "SaveBackupMeta env bc path =
     (let bc' = bc\<lparr>backupMeta := (backupMeta bc)\<lparr>meta_Path := path\<rparr>\<rparr> in
      case proto_Marshal env (backupMeta bc') of
        Inl err \<Rightarrow> (Returned (Some err), bc')
      | Inr backupMetaData \<Rightarrow>
          (case storage bc' of
             None \<Rightarrow> (Panicked, bc')
           | Some s \<Rightarrow>
               (case storage_Write env MetaFile backupMetaData of
                  Some err \<Rightarrow> (Returned (Some err), bc')
                | None \<Rightarrow>
                    (Returned None,
                     bc'\<lparr>storage := Some (s\<lparr>st_Files := (st_Files s)(MetaFile \<mapsto> backupMetaData)\<rparr>)\<rparr>))))"

definition GetRangeRegionCount :: "('t, 'db) cli_env \<Rightarrow> bytes \<Rightarrow> bytes \<Rightarrow> error + int" where
  "GetRangeRegionCount env startKey endKey = GetRegionCount env"

text \<open>
  The tail both commands share, from \<^verbatim>\<open>BackupRanges\<close> on. \<open>fuel\<close> and \<open>ticks\<close> are
  those of \<open>BackupRanges\<close>. A command's result is how the handler ends, the client (if
  one was made) and the requests sent.
\<close>

definition backup_and_save ::
  "nat \<Rightarrow> nat \<Rightarrow> ('t, 'db) cli_env \<Rightarrow> BackupClient \<Rightarrow> Range list \<Rightarrow> string \<Rightarrow> u64 \<Rightarrow> u64 \<Rightarrow> u32
     \<Rightarrow> error option outcome \<times> BackupClient option \<times> rpc list" where
  "backup_and_save fuel ticks env client ranges u backupTS rate concurrency =
     (case BackupRanges fuel ticks (env_kv env) client [] ranges u backupTS rate concurrency of
        (Returned (Some err), client', wire, checks) \<Rightarrow> (Returned (Some err), Some client', wire)
      | (Returned None, client', wire, checks) \<Rightarrow>
          (case CompleteMeta (env_sql env) client' of
             (Returned (Some err), client'') \<Rightarrow> (Returned (Some err), Some client'', wire)
           | (Returned None, client'') \<Rightarrow>
               (case flag_checksum env of
                  Inl err \<Rightarrow> (Returned (Some err), Some client'', wire)
                | Inr checksumSwitch \<Rightarrow>
                    if checksumSwitch then
                      (case FastChecksum (env_fc env) client'' of
                         Returned (valid, Some err) \<Rightarrow> (Returned (Some err), Some client'', wire)
                       | Returned (valid, None) \<Rightarrow>
                           (case SaveBackupMeta env client'' u of
                              (out, client''') \<Rightarrow> (out, Some client''', wire))
                       | LogFatal \<Rightarrow> (LogFatal, Some client'', wire)
                       | Panicked \<Rightarrow> (Panicked, Some client'', wire)
                       | Blocked \<Rightarrow> (Blocked, Some client'', wire)
                       | OutOfFuel \<Rightarrow> (OutOfFuel, Some client'', wire))
                    else
                      (case SaveBackupMeta env client'' u of
                         (out, client''') \<Rightarrow> (out, Some client''', wire)))
           | (out, client'') \<Rightarrow> (out, Some client'', wire))
      | (out, client', wire, checks) \<Rightarrow> (out, Some client', wire))"

text \<open>The handler \<^verbatim>\<open>RunE\<close> of \<^verbatim>\<open>newFullBackupCommand\<close>.\<close>

definition newFullBackupCommand ::
  "nat \<Rightarrow> nat \<Rightarrow> ('t, 'db) cli_env \<Rightarrow> error option outcome \<times> BackupClient option \<times> rpc list" where
  "newFullBackupCommand fuel ticks env =
     (case GetDefaultBacker env of
        Some err \<Rightarrow> (Returned (Some err), None, [])
      | None \<Rightarrow>
     (case NewBackupClient env of
        Inl err \<Rightarrow> (Returned None, None, [])
      | Inr client \<Rightarrow>
     (case flag_storage env of
        Inl err \<Rightarrow> (Returned (Some err), Some client, [])
      | Inr u \<Rightarrow>
     if u = '''' then
       (Returned (Some (ErrNew ''empty backup store is not allowed'')), Some client, [])
     else
     (case SetStorage (CreateStorage env) client u of
        (Some err, client1) \<Rightarrow> (Returned (Some err), Some client1, [])
      | (None, client1) \<Rightarrow>
     (case flag_timeago env of
        Inl err \<Rightarrow> (Returned (Some err), Some client1, [])
      | Inr timeAgo \<Rightarrow>
     (case GetTS (env_ts env) timeAgo of
        Inl err \<Rightarrow> (Returned (Some err), Some client1, [])
      | Inr backupTS \<Rightarrow>
     (case flag_ratelimit env of
        Inl err \<Rightarrow> (Returned (Some err), Some client1, [])
      | Inr rate \<Rightarrow>
     (case flag_concurrency env of
        Inl err \<Rightarrow> (Returned (Some err), Some client1, [])
      | Inr concurrency \<Rightarrow>
     if concurrency = 0 then
       (Returned (Some (ErrNew ''at least one thread required'')), Some client1, [])
     else
     (case PreBackupAllTableRanges (env_catalog env) client1 backupTS of
        (None, client2) \<Rightarrow> (Blocked, Some client2, [])
      | (Some (Inl err), client2) \<Rightarrow> (Returned (Some err), Some client2, [])
      | (Some (Inr ranges), client2) \<Rightarrow>
     (case GetRangeRegionCount env [] [] of
        Inl err \<Rightarrow> (Returned (Some err), Some client2, [])
      | Inr approximateRegions \<Rightarrow>
          backup_and_save fuel ticks env client2 ranges u backupTS rate concurrency))))))))))"

text \<open>The loop of the table command that adds up the region counts of the ranges.\<close>

fun count_regions :: "('t, 'db) cli_env \<Rightarrow> int \<Rightarrow> Range list \<Rightarrow> error + int" where
  "count_regions env approximateRegions [] = Inr approximateRegions"
| "count_regions env approximateRegions (r # ranges) =
     (case GetRangeRegionCount env (rg_StartKey r) (rg_EndKey r) of
        Inl err \<Rightarrow> Inl err
      | Inr regionCount \<Rightarrow> count_regions env (approximateRegions + regionCount) ranges)"

text \<open>The handler \<^verbatim>\<open>RunE\<close> of \<^verbatim>\<open>newTableBackupCommand\<close>.\<close>

definition newTableBackupCommand ::
  "nat \<Rightarrow> nat \<Rightarrow> ('t, 'db) cli_env \<Rightarrow> error option outcome \<times> BackupClient option \<times> rpc list" where
  "newTableBackupCommand fuel ticks env =
     (case GetDefaultBacker env of
        Some err \<Rightarrow> (Returned (Some err), None, [])
      | None \<Rightarrow>
     (case NewBackupClient env of
        Inl err \<Rightarrow> (Returned (Some err), None, [])
      | Inr client \<Rightarrow>
     (case flag_storage env of
        Inl err \<Rightarrow> (Returned (Some err), Some client, [])
      | Inr u \<Rightarrow>
     if u = '''' then
       (Returned (Some (ErrNew ''empty backup store is not allowed'')), Some client, [])
     else
     (case SetStorage (CreateStorage env) client u of
        (Some err, client1) \<Rightarrow> (Returned (Some err), Some client1, [])
      | (None, client1) \<Rightarrow>
     (case flag_db env of
        Inl err \<Rightarrow> (Returned (Some err), Some client1, [])
      | Inr db \<Rightarrow>
     if length db = 0 then
       (Returned (Some (ErrNew ''empty database name is not allowed'')), Some client1, [])
     else
     (case flag_table env of
        Inl err \<Rightarrow> (Returned (Some err), Some client1, [])
      | Inr table \<Rightarrow>
     if length table = 0 then
       (Returned (Some (ErrNew ''empty table name is not allowed'')), Some client1, [])
     else
     (case flag_timeago env of
        Inl err \<Rightarrow> (Returned (Some err), Some client1, [])
      | Inr timeAgo \<Rightarrow>
     (case GetTS (env_ts env) timeAgo of
        Inl err \<Rightarrow> (Returned (Some err), Some client1, [])
      | Inr backupTS \<Rightarrow>
     (case flag_ratelimit env of
        Inl err \<Rightarrow> (Returned (Some err), Some client1, [])
      | Inr rate \<Rightarrow>
     (case flag_concurrency env of
        Inl err \<Rightarrow> (Returned (Some err), Some client1, [])
      | Inr concurrency \<Rightarrow>
     if concurrency = 0 then
       (Returned (Some (ErrNew ''at least one thread required'')), Some client1, [])
     else
     (case PreBackupTableRanges (env_catalog env) client1 db table u backupTS of
        (None, client2) \<Rightarrow> (Blocked, Some client2, [])
      | (Some (Inl err), client2) \<Rightarrow> (Returned (Some err), Some client2, [])
      | (Some (Inr ranges), client2) \<Rightarrow>
     (case count_regions env 0 ranges of
        Inl err \<Rightarrow> (Returned (Some err), Some client2, [])
      | Inr approximateRegions \<Rightarrow>
          backup_and_save fuel ticks env client2 ranges u backupTS rate concurrency))))))))))))"

section \<open>The properties, in the words of the specification\<close>

text \<open>
  The statistics of a table's files as the specification gives them: the xor of
  \<^verbatim>\<open>Crc64Xor\<close> and the sums of \<^verbatim>\<open>TotalKvs\<close> and \<^verbatim>\<open>TotalBytes\<close>.
\<close>

definition spec_file_stats :: "File list \<Rightarrow> u64 \<times> u64 \<times> u64" where
  "spec_file_stats files =
     (foldr (XOR) (map file_Crc64Xor files) 0,
      sum_list (map file_TotalKvs files),
      sum_list (map file_TotalBytes files))"

text \<open>
  The table of a schema of the manifest: the one \<^verbatim>\<open>FastChecksum\<close> looks up, by the
  names decoded from the schema, in what \<^verbatim>\<open>LoadBackupTables\<close> returned. A schema agrees
  when its recorded triple is the statistics of that table's files.
\<close>

definition schema_table :: "'db fc_env \<Rightarrow> (string \<rightharpoonup> 'db) \<Rightarrow> Schema \<Rightarrow> Table option" where
  "schema_table env dbs schema =
     (case json_Unmarshal_DBInfo env (sch_Db schema) of
        Inl err \<Rightarrow> None
      | Inr dbInfo \<Rightarrow>
          (case json_Unmarshal_TableInfo env (sch_Table schema) of
             Inl err \<Rightarrow> None
           | Inr tblInfo \<Rightarrow>
               (case dbs (cistr_O (db_Name dbInfo)) of
                  None \<Rightarrow> None
                | Some db \<Rightarrow> GetTable env db (cistr_O (tbl_Name tblInfo)))))"

definition schema_agrees :: "'db fc_env \<Rightarrow> (string \<rightharpoonup> 'db) \<Rightarrow> Schema \<Rightarrow> bool" where
  "schema_agrees env dbs schema =
     (case schema_table env dbs schema of
        None \<Rightarrow> False
      | Some tbl \<Rightarrow>
          (sch_Crc64Xor schema, sch_TotalKvs schema, sch_TotalBytes schema) =
            spec_file_stats (tb_Files tbl))"







definition manifest_of ::
  "error option outcome \<times> BackupClient option \<times> rpc list \<Rightarrow> BackupMeta option" where
  "manifest_of r = map_option backupMeta (fst (snd r))"

section \<open>Concrete inputs\<close>

text \<open>Small concrete messages and collaborators, for evaluating the definitions.\<close>

definition a_lock :: LockInfo where
  "a_lock = \<lparr>lock_PrimaryLock = ''k1'', lock_LockVersion = 7, lock_Key = ''k1'', lock_LockTtl = 3000\<rparr>"

definition no_region_error :: RegionError where
  "no_region_error =
     \<lparr>Message = '''', NotLeader = None, RegionNotFound = None, KeyNotInRegion = None,
      EpochNotMatch = None, ServerIsBusy = None, StaleCommand = None, StoreNotMatch = None,
      RaftEntryTooLarge = None\<rparr>"

definition response_with :: "BackupError option \<Rightarrow> BackupResponse" where
  "response_with e = \<lparr>resp_Error = e, resp_StartKey = ''a'', resp_EndKey = ''b'', resp_Files = []\<rparr>"

definition ok_response :: BackupResponse where
  "ok_response = response_with None"

definition locked_response :: BackupResponse where
  "locked_response =
     response_with (Some \<lparr>Msg = ''locked'',
       Detail = Some (Error_KvError \<lparr>Locked = Some a_lock, Retryable = '''', Abort = ''''\<rparr>)\<rparr>)"

definition abort_response :: BackupResponse where
  "abort_response =
     response_with (Some \<lparr>Msg = ''abort'',
       Detail = Some (Error_KvError \<lparr>Locked = None, Retryable = '''', Abort = ''txn aborted''\<rparr>)\<rparr>)"

definition not_leader_response :: BackupResponse where
  "not_leader_response =
     response_with (Some \<lparr>Msg = ''not leader'',
       Detail = Some (Error_RegionError (no_region_error\<lparr>NotLeader := Some ()\<rparr>))\<rparr>)"

definition key_not_in_region_response :: BackupResponse where
  "key_not_in_region_response =
     response_with (Some \<lparr>Msg = ''key not in region'',
       Detail = Some (Error_RegionError (no_region_error\<lparr>KeyNotInRegion := Some ()\<rparr>))\<rparr>)"

definition cluster_id_response :: BackupResponse where
  "cluster_id_response =
     response_with (Some \<lparr>Msg = ''cluster id'',
       Detail = Some (Error_ClusterIdError \<lparr>cid_Current = 1, cid_Request = 2\<rparr>)\<rparr>)"

definition unknown_error_response :: BackupResponse where
  "unknown_error_response = response_with (Some \<lparr>Msg = ''unknown'', Detail = None\<rparr>)"

definition resolver_500 :: LockResolver where
  "resolver_500 locks = Inr 500"

definition resolver_fails :: LockResolver where
  "resolver_fails locks = Inl (ErrCollaborator ''resolve locks: region unavailable'')"

definition store1 :: Store where
  "store1 = \<lparr>store_Id = 1, store_Address = ''tikv1:20160''\<rparr>"

definition peer1 :: Peer where
  "peer1 = \<lparr>peer_Id = 11, peer_StoreId = 1\<rparr>"

definition file1 :: File where
  "file1 = \<lparr>file_Name = ''1_7_write.sst'', file_StartKey = ''t100'', file_EndKey = ''t101'',
             file_Crc64Xor = 17, file_TotalKvs = 10, file_TotalBytes = 100,
             file_StartVersion = 42, file_EndVersion = 42\<rparr>"

text \<open>
  A cluster of one store whose push-down round completes nothing. The first lookup of a
  leader fails and the second finds it; the fine-grained requests of the first round are
  answered by a \<^verbatim>\<open>NotLeader\<close> error, every later one by a response that covers the
  requested range. The range tree is a list of ranges that holds nothing or the whole
  range. The select statement takes \<^verbatim>\<open>respCh\<close> whenever it is ready.
\<close>

definition retry_cluster :: "Range list kv_env" where
  "retry_cluster =
     \<lparr>pd_GetAllStores = (\<lambda>t. Inr [store1]),
      pd_GetRegion = (\<lambda>c i key. if i = 0 then Inl (ErrCollaborator ''pd: timeout'')
                                  else Inr (Some peer1)),
      EncodeBytes = (\<lambda>key. key),
      pushBackup = (\<lambda>t req stores. Inr []),
      SendBackup = (\<lambda>c storeID req.
        if fst (snd c) = 0 then ([not_leader_response], None)
        else ([\<lparr>resp_Error = None, resp_StartKey = req_StartKey req,
                 resp_EndKey = req_EndKey req, resp_Files = [file1]\<rparr>], None)),
      ResolveLocks = (\<lambda>c. resolver_500),
      BackoffWithMaxSleep = (\<lambda>t k ms. None),
      select_order = (\<lambda>t k. []),
      select_error = (\<lambda>t k. None),
      getIncompleteRange = (\<lambda>tree startKey endKey.
        if tree = [] then [\<lparr>rg_StartKey = startKey, rg_EndKey = endKey, rg_Files = []\<rparr>]
        else []),
      putOk = (\<lambda>tree startKey endKey files.
        tree @ [\<lparr>rg_StartKey = startKey, rg_EndKey = endKey, rg_Files = files\<rparr>]),
      ascend = (\<lambda>tree. tree),
      CheckGCSafepoint = (\<lambda>n ts. None)\<rparr>"

text \<open>
  The same cluster with a store that answers every fine-grained request by a response
  that covers the requested range and then breaks the stream; and the same again with a
  select statement that takes \<^verbatim>\<open>errCh\<close> at once.
\<close>

definition reset_cluster :: "Range list kv_env" where
  "reset_cluster =
     retry_cluster\<lparr>SendBackup := (\<lambda>c storeID req.
       ([\<lparr>resp_Error = None, resp_StartKey = req_StartKey req, resp_EndKey = req_EndKey req,
          resp_Files = [file1]\<rparr>], Some (ErrCollaborator ''rpc: connection reset'')))\<rparr>"

definition reset_cluster_errCh :: "Range list kv_env" where
  "reset_cluster_errCh = reset_cluster\<lparr>select_error := (\<lambda>t k. Some (0, 0))\<rparr>"

text \<open>
  A cluster whose tree leaves two ranges incomplete, split at the key \<^verbatim>\<open>m\<close>. No
  leader is found for the first; the second is answered by a response that covers it.
  The select statement takes the response of the second and then \<^verbatim>\<open>errCh\<close>.
\<close>

definition split_cluster :: "Range list kv_env" where
  "split_cluster =
     retry_cluster\<lparr>
       pd_GetRegion := (\<lambda>c i key. if snd (snd c) = 0 then Inr None else Inr (Some peer1)),
       SendBackup := (\<lambda>c storeID req.
         ([\<lparr>resp_Error = None, resp_StartKey = req_StartKey req, resp_EndKey = req_EndKey req,
            resp_Files = [file1]\<rparr>], None)),
       select_error := (\<lambda>t k. Some (1, 0)),
       getIncompleteRange := (\<lambda>tree startKey endKey.
         if tree = [] then [\<lparr>rg_StartKey = startKey, rg_EndKey = ''m'', rg_Files = []\<rparr>,
                            \<lparr>rg_StartKey = ''m'', rg_EndKey = endKey, rg_Files = []\<rparr>]
         else [])\<rparr>"

definition range100 :: Range where
  "range100 = \<lparr>rg_StartKey = ''t100'', rg_EndKey = ''t101'', rg_Files = []\<rparr>"

definition request100 :: BackupRequest where
  "request100 =
     \<lparr>req_ClusterId = 9, req_StartKey = ''t100'', req_EndKey = ''t101'',
      req_StartVersion = 42, req_EndVersion = 42, req_Path = ''local:///backup'',
      req_RateLimit = 0, req_Concurrency = 4\<rparr>"

definition response100 :: BackupResponse where
  "response100 =
     \<lparr>resp_Error = None, resp_StartKey = ''t100'', resp_EndKey = ''t101'', resp_Files = [file1]\<rparr>"

text \<open>
  The same cluster with a safepoint check that fails twice and passes from then on, and
  with one that always fails.
\<close>

definition flaky_safepoint_cluster :: "Range list kv_env" where
  "flaky_safepoint_cluster =
     retry_cluster\<lparr>CheckGCSafepoint :=
       (\<lambda>n ts. if n < 2 then Some (ErrCollaborator ''GC safepoint exceed TS'') else None)\<rparr>"

definition exceeded_safepoint_cluster :: "Range list kv_env" where
  "exceeded_safepoint_cluster =
     retry_cluster\<lparr>CheckGCSafepoint :=
       (\<lambda>n ts. Some (ErrCollaborator ''GC safepoint exceed TS''))\<rparr>"

definition empty_meta :: BackupMeta where
  "empty_meta = \<lparr>meta_ClusterId = 0, meta_Path = '''', meta_StartVersion = 0,
                  meta_EndVersion = 0, meta_Schemas = [], meta_Files = []\<rparr>"

definition client0 :: BackupClient where
  "client0 = \<lparr>clusterID = 9, backupMeta = empty_meta, bs_meta = Map.empty, bs_started = [],
               bs_idle = 8, storage = None\<rparr>"

text \<open>
  Timestamps: a placement driver at 3600005 ms with the safepoint at 5 ms, so that one
  hour ago is the safepoint's own millisecond; and a placement driver at 5 ms, behind a
  safepoint at 100 ms.
\<close>

definition one_hour_parser :: "string \<Rightarrow> error + i64" where
  "one_hour_parser s =
     (if s = ''1h'' then Inr 3600000000000 else Inl (ErrCollaborator ''time: invalid duration''))"

definition ts_env_at_safepoint :: ts_env where
  "ts_env_at_safepoint =
     \<lparr>pd_GetTS = Inr (3600005, 0), ParseDuration = one_hour_parser,
      GetGCSafePoint = Inr \<lparr>Physical = 5, Logical = 0\<rparr>\<rparr>"

definition ts_env_behind_safepoint :: ts_env where
  "ts_env_behind_safepoint =
     \<lparr>pd_GetTS = Inr (5, 0), ParseDuration = one_hour_parser,
      GetGCSafePoint = Inr \<lparr>Physical = 100, Logical = 0\<rparr>\<rparr>"

text \<open>Storages: an empty destination, and one that already holds a manifest.\<close>

definition empty_storage :: ExternalStorage where
  "empty_storage = \<lparr>st_Files = Map.empty\<rparr>"

definition used_storage :: ExternalStorage where
  "used_storage = \<lparr>st_Files = [''backupmeta'' \<mapsto> ''old manifest'']\<rparr>"

definition create_storage :: "string \<Rightarrow> error + ExternalStorage" where
  "create_storage base =
     (if base = ''local:///backup'' then Inr empty_storage
      else if base = ''local:///used'' then Inr used_storage
      else Inl (ErrCollaborator ''storage: unsupported scheme''))"

text \<open>
  A catalog with the system database \<^verbatim>\<open>mysql\<close> and the user database \<^verbatim>\<open>test\<close>, which
  holds the table \<^verbatim>\<open>t\<close> (id 100) and the table \<^verbatim>\<open>p\<close> (id 200) with the partitions 201
  and 202.
\<close>

definition ci :: "string \<Rightarrow> CIStr" where
  "ci name = \<lparr>cistr_O = name, cistr_L = name\<rparr>"

definition table_t :: TableInfo where
  "table_t = \<lparr>tbl_ID = 100, tbl_Name = ci ''t'', tbl_AutoIncID = 0, tbl_PartitionInfo = None\<rparr>"


definition table_user :: TableInfo where
  "table_user = \<lparr>tbl_ID = 1, tbl_Name = ci ''user'', tbl_AutoIncID = 0, tbl_PartitionInfo = None\<rparr>"

definition db_mysql :: DBInfo where
  "db_mysql = \<lparr>db_ID = 1, db_Name = ci ''mysql'', db_Tables = [table_user]\<rparr>"




definition prefix_of :: "i64 \<Rightarrow> bytes" where
  "prefix_of tableID =
     (if tableID = 100 then ''t100'' else if tableID = 101 then ''t101''
      else if tableID = 201 then ''t201'' else if tableID = 202 then ''t202''
      else if tableID = 203 then ''t203'' else ''t'')"

definition catalog_of :: "DBInfo list \<Rightarrow> catalog_env" where
  "catalog_of dbInfos =
     \<lparr>GetSnapshotInfoSchema = (\<lambda>ts. Inr dbInfos),
      SchemaByName = (\<lambda>info name. find (\<lambda>db. cistr_L (db_Name db) = name) info),
      TableByName = (\<lambda>info dbName tableName.
        case find (\<lambda>db. cistr_L (db_Name db) = dbName) info of
          None \<Rightarrow> Inl (ErrCollaborator ''table not found'')
        | Some db \<Rightarrow>
            (case find (\<lambda>tbl. cistr_L (tbl_Name tbl) = tableName) (db_Tables db) of
               None \<Rightarrow> Inl (ErrCollaborator ''table not found'')
             | Some tbl \<Rightarrow> Inr tbl)),
      json_Marshal_DBInfo = (\<lambda>db. Inr (cistr_O (db_Name db))),
      json_Marshal_TableInfo = (\<lambda>tbl. Inr (cistr_O (tbl_Name tbl))),
      NextGlobalAutoID = (\<lambda>dbID tblID. Inr 1),
      CreateSession = (\<lambda>n. None),
      GenTablePrefix = prefix_of\<rparr>"

text \<open>
  Checksums: databases are lists of named tables; the JSON of a database or of a table
  is its name.
\<close>

definition fc_of :: "(BackupMeta \<Rightarrow> error + (string \<rightharpoonup> (string \<times> Table) list))
    \<Rightarrow> (string \<times> Table) list fc_env" where
  "fc_of load =
     \<lparr>LoadBackupTables = load,
      GetTable = (\<lambda>db name. map_of db name),
      json_Unmarshal_DBInfo = (\<lambda>b. Inr \<lparr>db_ID = 0, db_Name = ci b, db_Tables = []\<rparr>),
      json_Unmarshal_TableInfo = (\<lambda>b. Inr \<lparr>tbl_ID = 0, tbl_Name = ci b, tbl_AutoIncID = 0,
                                            tbl_PartitionInfo = None\<rparr>)\<rparr>"

definition load_test_t :: "BackupMeta \<Rightarrow> error + (string \<rightharpoonup> (string \<times> Table) list)" where
  "load_test_t m = Inr [''test'' \<mapsto> [(''t'', \<lparr>tb_Files = meta_Files m\<rparr>)]]"

definition schema_test_t :: "u64 \<Rightarrow> Schema" where
  "schema_test_t crc =
     \<lparr>sch_Db = ''test'', sch_Table = ''t'', sch_Crc64Xor = crc, sch_TotalKvs = 10,
      sch_TotalBytes = 100\<rparr>"

definition client_with :: "Schema list \<Rightarrow> File list \<Rightarrow> BackupClient" where
  "client_with schemas files =
     client0\<lparr>backupMeta := empty_meta\<lparr>meta_Schemas := schemas, meta_Files := files\<rparr>\<rparr>"

definition parse_uint :: "string \<Rightarrow> error + u64" where
  "parse_uint s =
     (if s = ''17'' then Inr 17 else if s = ''10'' then Inr 10 else if s = ''100'' then Inr 100
      else Inl (ErrCollaborator ''strconv.ParseUint: invalid syntax''))"

definition sql_test_t :: sql_env where
  "sql_test_t =
     \<lparr>EncloseName = (\<lambda>name. name),
      Execute = (\<lambda>query. Inr [Inr [[''test'', ''t'', ''17'', ''10'', ''100'']]]),
      ParseUint = parse_uint\<rparr>"

text \<open>
  The command line \<^verbatim>\<open>backup full -s local:///backup --checksum\<close> (and
  \<^verbatim>\<open>backup table --db test --table t\<close>) against the cluster above, whose catalog holds
  \<^verbatim>\<open>mysql\<close> and the database \<^verbatim>\<open>test\<close> with the one table \<^verbatim>\<open>t\<close>. The placement driver's
  timestamp encodes to 42.
\<close>

definition db_test_t :: DBInfo where
  "db_test_t = \<lparr>db_ID = 2, db_Name = ci ''test'', db_Tables = [table_t]\<rparr>"

definition demo_cli :: "(Range list, (string \<times> Table) list) cli_env" where
  "demo_cli =
     \<lparr>GetDefaultBacker = None,
      BootstrapSession = None,
      pd_GetClusterID = 9,
      flag_storage = Inr ''local:///backup'',
      flag_timeago = Inr '''',
      flag_ratelimit = Inr 0,
      flag_concurrency = Inr 4,
      flag_checksum = Inr True,
      flag_db = Inr ''test'',
      flag_table = Inr ''t'',
      CreateStorage = create_storage,
      GetRegionCount = Inr 1,
      proto_Marshal = (\<lambda>m. Inr ''manifest''),
      storage_Write = (\<lambda>name data. None),
      env_ts = \<lparr>pd_GetTS = Inr (0, 42), ParseDuration = one_hour_parser,
                GetGCSafePoint = Inr \<lparr>Physical = 0, Logical = 0\<rparr>\<rparr>,
      env_catalog = catalog_of [db_mysql, db_test_t],
      env_kv = retry_cluster,
      env_sql = sql_test_t,
      env_fc = fc_of load_test_t\<rparr>"


text \<open>The same with a placement driver that does not answer \<^verbatim>\<open>GetAllStores\<close>.\<close>

definition pd_down_cli :: "(Range list, (string \<times> Table) list) cli_env" where
  "pd_down_cli =
     demo_cli\<lparr>env_kv := retry_cluster\<lparr>pd_GetAllStores :=
       (\<lambda>t. Inl (ErrCollaborator ''pd: connection refused''))\<rparr>\<rparr>"

text \<open>The same with a destination that already holds a manifest.\<close>

definition used_storage_cli :: "(Range list, (string \<times> Table) list) cli_env" where
  "used_storage_cli = demo_cli\<lparr>flag_storage := Inr ''local:///used''\<rparr>"

section \<open>The response classifier: theorems\<close>

lemma onBackupResponse_Some_iff:
  "fst (onBackupResponse lockResolver resp) = Some r \<longleftrightarrow> resp_Error resp = None \<and> r = resp"
  by (auto simp: onBackupResponse_def split: option.splits Error_Detail.splits sum.splits)

text \<open>
  C2, as stated, fails for a locked key whose lock the resolver cannot resolve: the
  resolver's error is returned, so a \<^verbatim>\<open>KvError.Locked\<close> response can end in an error.
\<close>

theorem onBackupResponse_locked_error:
  "resp_Error locked_response =
     Some \<lparr>Msg = ''locked'',
           Detail = Some (Error_KvError \<lparr>Locked = Some a_lock, Retryable = '''', Abort = ''''\<rparr>)\<rparr>
   \<and> onBackupResponse resolver_fails locked_response =
       (None, 0, Some (ErrCollaborator ''resolve locks: region unavailable''))"
  by (simp add: onBackupResponse_def locked_response_def response_with_def resolver_fails_def)

text \<open>
  C2, amended: \<^verbatim>\<open>onBackupResponse\<close> classifies every response. A nil error commits
  the response with hint 0. \<^verbatim>\<open>KvError.Locked\<close> asks the lock resolver: an error of the
  resolver is returned (fatal, hint 0); otherwise there is no response and no error, and
  the hint is \<^verbatim>\<open>msBeforeExpired\<close> when that is positive and 0 when it is not. A region
  error with one of \<^verbatim>\<open>EpochNotMatch\<close>, \<^verbatim>\<open>NotLeader\<close>, \<^verbatim>\<open>RegionNotFound\<close>,
  \<^verbatim>\<open>ServerIsBusy\<close>, \<^verbatim>\<open>StaleCommand\<close>, \<^verbatim>\<open>StoreNotMatch\<close> set gives no response, no
  error and hint 1000. Every other key error, every other region error, a cluster id
  error and an unset detail give no response, hint 0 and an error.
\<close>

theorem onBackupResponse_classification:
  "(resp_Error resp = None \<longrightarrow>
      onBackupResponse lockResolver resp = (Some resp, 0, None))
   \<and> (resp_Error resp = Some e \<and> Detail e = Some (Error_KvError kv) \<and> Locked kv = Some lock \<and>
        lockResolver [lock] = Inl err1 \<longrightarrow>
      onBackupResponse lockResolver resp = (None, 0, Some err1))
   \<and> (resp_Error resp = Some e \<and> Detail e = Some (Error_KvError kv) \<and> Locked kv = Some lock \<and>
        lockResolver [lock] = Inr msBeforeExpired \<longrightarrow>
      onBackupResponse lockResolver resp =
        (None, (if 0 < msBeforeExpired then msBeforeExpired else 0), None))
   \<and> (resp_Error resp = Some e \<and> Detail e = Some (Error_KvError kv) \<and> Locked kv = None \<longrightarrow>
      onBackupResponse lockResolver resp = (None, 0, Some (ErrOnBackupResponse (Error_KvError kv))))
   \<and> (resp_Error resp = Some e \<and> Detail e = Some (Error_RegionError re) \<and>
        (EpochNotMatch re \<noteq> None \<or> NotLeader re \<noteq> None \<or> RegionNotFound re \<noteq> None \<or>
         ServerIsBusy re \<noteq> None \<or> StaleCommand re \<noteq> None \<or> StoreNotMatch re \<noteq> None) \<longrightarrow>
      onBackupResponse lockResolver resp = (None, 1000, None))
   \<and> (resp_Error resp = Some e \<and> Detail e = Some (Error_RegionError re) \<and>
        EpochNotMatch re = None \<and> NotLeader re = None \<and> RegionNotFound re = None \<and>
        ServerIsBusy re = None \<and> StaleCommand re = None \<and> StoreNotMatch re = None \<longrightarrow>
      onBackupResponse lockResolver resp =
        (None, 0, Some (ErrOnBackupResponse (Error_RegionError re))))
   \<and> (resp_Error resp = Some e \<and> Detail e = Some (Error_ClusterIdError ce) \<longrightarrow>
      onBackupResponse lockResolver resp = (None, 0, Some (ErrBackupError e)))
   \<and> (resp_Error resp = Some e \<and> Detail e = None \<longrightarrow>
      onBackupResponse lockResolver resp = (None, 0, Some (ErrBackupError e)))"
  unfolding onBackupResponse_def by (simp split: option.splits)

theorem onBackupResponse_classification_witness:
  "onBackupResponse resolver_500 ok_response = (Some ok_response, 0, None)
   \<and> onBackupResponse resolver_fails locked_response =
       (None, 0, Some (ErrCollaborator ''resolve locks: region unavailable''))
   \<and> onBackupResponse resolver_500 locked_response = (None, 500, None)
   \<and> fst (snd (onBackupResponse resolver_500 abort_response)) = 0
   \<and> snd (snd (onBackupResponse resolver_500 abort_response)) \<noteq> None
   \<and> onBackupResponse resolver_500 not_leader_response = (None, 1000, None)
   \<and> snd (snd (onBackupResponse resolver_500 key_not_in_region_response)) \<noteq> None
   \<and> snd (snd (onBackupResponse resolver_500 cluster_id_response)) \<noteq> None
   \<and> snd (snd (onBackupResponse resolver_500 unknown_error_response)) \<noteq> None"
proof -
  note c = onBackupResponse_classification
  have r1: "onBackupResponse resolver_500 ok_response = (Some ok_response, 0, None)"
    using c [where resp = ok_response and lockResolver = resolver_500]
    by (simp add: ok_response_def response_with_def)
  have r2: "onBackupResponse resolver_fails locked_response =
      (None, 0, Some (ErrCollaborator ''resolve locks: region unavailable''))"
    using c [where resp = locked_response and lockResolver = resolver_fails
        and e = "\<lparr>Msg = ''locked'', Detail = Some (Error_KvError
                  \<lparr>Locked = Some a_lock, Retryable = '''', Abort = ''''\<rparr>)\<rparr>"
        and kv = "\<lparr>Locked = Some a_lock, Retryable = '''', Abort = ''''\<rparr>"
        and lock = a_lock
        and ?err1.0 = "ErrCollaborator ''resolve locks: region unavailable''"]
    by (simp add: locked_response_def response_with_def resolver_fails_def)
  have r3: "onBackupResponse resolver_500 locked_response = (None, 500, None)"
    using c [where resp = locked_response and lockResolver = resolver_500
        and e = "\<lparr>Msg = ''locked'', Detail = Some (Error_KvError
                  \<lparr>Locked = Some a_lock, Retryable = '''', Abort = ''''\<rparr>)\<rparr>"
        and kv = "\<lparr>Locked = Some a_lock, Retryable = '''', Abort = ''''\<rparr>"
        and lock = a_lock and msBeforeExpired = 500]
    by (simp add: locked_response_def response_with_def resolver_500_def)
  have r4: "onBackupResponse resolver_500 abort_response =
      (None, 0, Some (ErrOnBackupResponse
         (Error_KvError \<lparr>Locked = None, Retryable = '''', Abort = ''txn aborted''\<rparr>)))"
    using c [where resp = abort_response and lockResolver = resolver_500
        and e = "\<lparr>Msg = ''abort'', Detail = Some (Error_KvError
                  \<lparr>Locked = None, Retryable = '''', Abort = ''txn aborted''\<rparr>)\<rparr>"
        and kv = "\<lparr>Locked = None, Retryable = '''', Abort = ''txn aborted''\<rparr>"]
    by (simp add: abort_response_def response_with_def)
  have r5: "onBackupResponse resolver_500 not_leader_response = (None, 1000, None)"
    using c [where resp = not_leader_response and lockResolver = resolver_500
        and e = "\<lparr>Msg = ''not leader'', Detail = Some (Error_RegionError
                  (no_region_error\<lparr>NotLeader := Some ()\<rparr>))\<rparr>"
        and re = "no_region_error\<lparr>NotLeader := Some ()\<rparr>"]
    by (simp add: not_leader_response_def response_with_def no_region_error_def)
  have r6: "onBackupResponse resolver_500 key_not_in_region_response =
      (None, 0, Some (ErrOnBackupResponse
         (Error_RegionError (no_region_error\<lparr>KeyNotInRegion := Some ()\<rparr>))))"
    using c [where resp = key_not_in_region_response and lockResolver = resolver_500
        and e = "\<lparr>Msg = ''key not in region'', Detail = Some (Error_RegionError
                  (no_region_error\<lparr>KeyNotInRegion := Some ()\<rparr>))\<rparr>"
        and re = "no_region_error\<lparr>KeyNotInRegion := Some ()\<rparr>"]
    by (simp add: key_not_in_region_response_def response_with_def no_region_error_def)
  have r7: "snd (snd (onBackupResponse resolver_500 cluster_id_response)) \<noteq> None"
    using c [where resp = cluster_id_response and lockResolver = resolver_500
        and e = "\<lparr>Msg = ''cluster id'', Detail = Some (Error_ClusterIdError
                  \<lparr>cid_Current = 1, cid_Request = 2\<rparr>)\<rparr>"
        and ce = "\<lparr>cid_Current = 1, cid_Request = 2\<rparr>"]
    by (simp add: cluster_id_response_def response_with_def)
  have r8: "snd (snd (onBackupResponse resolver_500 unknown_error_response)) \<noteq> None"
    using c [where resp = unknown_error_response and lockResolver = resolver_500
        and e = "\<lparr>Msg = ''unknown'', Detail = None\<rparr>"]
    by (simp add: unknown_error_response_def response_with_def)
  show ?thesis using r1 r2 r3 r4 r5 r6 r7 r8 by simp
qed

section \<open>Fine-grained backup: theorems\<close>

lemma onBackupResponse_response:
  "onBackupResponse lockResolver resp = (Some r, ms, e) \<Longrightarrow> resp_Error resp = None \<and> r = resp"
  using onBackupResponse_Some_iff [of lockResolver resp r] by simp

lemma respFn_sent:
  "r \<in> set (snd (respFn lockResolver m frames eos)) \<Longrightarrow> resp_Error r = None"
proof (induction frames arbitrary: m r)
  case Nil
  then show ?case by simp
next
  case (Cons resp frames)
  obtain response ms e where o: "onBackupResponse lockResolver resp = (response, ms, e)"
    by (cases "onBackupResponse lockResolver resp") auto
  show ?case
  proof (cases e)
    case (Some err)
    with o Cons.prems show ?thesis by simp
  next
    case None
    let ?m = "if m < ms then ms else m"
    obtain res sent where rf: "respFn lockResolver ?m frames eos = (res, sent)"
      by (cases "respFn lockResolver ?m frames eos") auto
    from Cons.IH [of r ?m] rf have ih: "r \<in> set sent \<Longrightarrow> resp_Error r = None" by simp
    show ?thesis
    proof (cases response)
      case None
      with o \<open>e = None\<close> rf Cons.prems ih show ?thesis by simp
    next
      case (Some x)
      with o \<open>e = None\<close> have "resp_Error resp = None \<and> x = resp"
        using onBackupResponse_response by blast
      with Some o \<open>e = None\<close> rf Cons.prems ih show ?thesis by auto
    qed
  qed
qed

lemma respFn_sent_pair:
  "respFn lockResolver m frames eos = (res, sent) \<Longrightarrow> r \<in> set sent \<Longrightarrow> resp_Error r = None"
  using respFn_sent [of r lockResolver m frames eos] by simp

lemma handleFineGrained_sent:
  "r \<in> set (fst (snd (handleFineGrained env c cluster rg backupTS path rateLimit concurrency)))
   \<Longrightarrow> resp_Error r = None"
  unfolding handleFineGrained_def
  by (auto simp: Let_def split: sum.splits prod.splits dest: respFn_sent_pair)

lemma fineGrained_workers_calls:
  "call \<in> set (fineGrained_workers env t k i alive cluster backupTS path rateLimit concurrency
      rgs) \<Longrightarrow>
   \<exists>j rg. call = handleFineGrained env (t, k, j) cluster rg backupTS path rateLimit concurrency"
proof (induction rgs arbitrary: i alive)
  case Nil
  then show ?case by simp
next
  case (Cons rg rgs)
  obtain res sent reqs where h:
    "handleFineGrained env (t, k, i) cluster rg backupTS path rateLimit concurrency
       = (res, sent, reqs)"
    by (cases "handleFineGrained env (t, k, i) cluster rg backupTS path rateLimit concurrency")
       auto
  from Cons.prems have a: "alive \<noteq> 0" by (auto split: if_splits)
  show ?case
  proof (cases res)
    case (Inl err)
    with Cons.prems h a have "call = (res, sent, reqs) \<or>
      call \<in> set (fineGrained_workers env t k (Suc i) (alive - 1) cluster backupTS path
        rateLimit concurrency rgs)" by auto
    with h Cons.IH show ?thesis by metis
  next
    case (Inr backoffMs)
    with Cons.prems h a have "call = (res, sent, reqs) \<or>
      call \<in> set (fineGrained_workers env t k (Suc i) alive cluster backupTS path
        rateLimit concurrency rgs)" by auto
    with h Cons.IH show ?thesis by metis
  qed
qed

lemma fineGrained_workers_sent:
  assumes "r \<in> set (concat (map (\<lambda>(res, sent, reqs). sent)
      (fineGrained_workers env t k i alive cluster backupTS path rateLimit concurrency rgs)))"
  shows "resp_Error r = None"
proof -
  from assms obtain call where
    c: "call \<in> set (fineGrained_workers env t k i alive cluster backupTS path rateLimit
          concurrency rgs)" and r: "r \<in> set (fst (snd call))"
    by (auto simp: case_prod_beta)
  from fineGrained_workers_calls [OF c] r show ?thesis
    using handleFineGrained_sent by blast
qed

text \<open>
  While fewer than four calls of a round failed, every range of the round is taken; in
  particular \<^verbatim>\<open>respCh\<close> gets closed when no worker sent an error.
\<close>

lemma fineGrained_workers_all_taken:
  "length (worker_errors (fineGrained_workers env t k i alive cluster backupTS path rateLimit
      concurrency rgs)) < alive \<Longrightarrow>
   length (fineGrained_workers env t k i alive cluster backupTS path rateLimit concurrency rgs)
     = length rgs"
proof (induction rgs arbitrary: i alive)
  case Nil
  show ?case by simp
next
  case (Cons rg rgs)
  from Cons.prems have a: "alive \<noteq> 0" by auto
  obtain res sent reqs where h:
    "handleFineGrained env (t, k, i) cluster rg backupTS path rateLimit concurrency
       = (res, sent, reqs)"
    by (cases "handleFineGrained env (t, k, i) cluster rg backupTS path rateLimit concurrency")
       auto
  show ?case
  proof (cases res)
    case (Inl err)
    with Cons.prems h a
    have "length (worker_errors (fineGrained_workers env t k (Suc i) (alive - 1) cluster
        backupTS path rateLimit concurrency rgs)) < alive - 1" by simp
    from Cons.IH [OF this] Inl h a show ?thesis by simp
  next
    case (Inr backoffMs)
    with Cons.prems h a
    have "length (worker_errors (fineGrained_workers env t k (Suc i) alive cluster
        backupTS path rateLimit concurrency rgs)) < alive" by simp
    from Cons.IH [OF this] Inr h a show ?thesis by simp
  qed
qed

lemma interleave_set: "set (interleave picks sents) \<subseteq> set (concat sents)"
proof (induction picks arbitrary: sents)
  case Nil
  show ?case by simp
next
  case (Cons i picks)
  show ?case
  proof (cases "i < length sents")
    case False
    with Cons.IH [of sents] show ?thesis by simp
  next
    case True
    show ?thesis
    proof (cases "sents ! i")
      case Nil
      with True Cons.IH [of sents] show ?thesis by simp
    next
      case (Cons x xs)
      from True have "sents ! i \<in> set sents" by simp
      with Cons have "x # xs \<in> set sents" by simp
      then have "set (x # xs) \<subseteq> set (concat sents)"
        unfolding set_concat by blast
      then have x: "x \<in> set (concat sents)" "set xs \<subseteq> set (concat sents)"
        by simp_all
      have "set (concat (sents[i := xs])) \<subseteq> set (concat sents)"
      proof
        fix y
        assume "y \<in> set (concat (sents[i := xs]))"
        then obtain ys where ys: "ys \<in> set (sents[i := xs])" "y \<in> set ys" by auto
        from ys(1) have "ys = xs \<or> ys \<in> set sents"
          using set_update_subset_insert [of sents i xs] by auto
        with ys(2) x(2) show "y \<in> set (concat sents)" by auto
      qed
      with Cons.IH [of "sents[i := xs]"] x True Cons show ?thesis by auto
    qed
  qed
qed

lemma select_schedule_received:
  "select_schedule choice errs closed resps = (received, how) \<Longrightarrow> set received \<subseteq> set resps"
  by (auto simp: select_schedule_def split: list.splits option.splits prod.splits
      dest: in_set_takeD)

lemma selectLoop_no_fatal:
  "(\<And>r. r \<in> set rs \<Longrightarrow> resp_Error r = None) \<Longrightarrow> selectLoop env tree rs \<noteq> None"
  by (induction rs arbitrary: tree) auto

lemma fineGrainedBackup_from_no_fatal:
  "fst (fineGrainedBackup_from fuel env t k cluster wire startKey endKey backupTS path rateLimit
     concurrency tree) \<notin> {LogFatal, Panicked, Blocked}"
proof (induction fuel arbitrary: k wire tree)
  case 0
  show ?case by simp
next
  case (Suc fuel)
  let ?inc = "getIncompleteRange env tree startKey endKey"
  let ?calls = "fineGrained_workers env t k 0 4 cluster backupTS path rateLimit concurrency ?inc"
  let ?respCh = "interleave (select_order env t k) (map (\<lambda>(r, sent, reqs). sent) ?calls)"
  obtain received how where s:
    "select_schedule (select_error env t k) (worker_errors ?calls)
       (length ?calls = length ?inc) ?respCh = (received, how)"
    by (cases "select_schedule (select_error env t k) (worker_errors ?calls)
       (length ?calls = length ?inc) ?respCh") auto
  have "\<And>r. r \<in> set received \<Longrightarrow> resp_Error r = None"
  proof -
    fix r
    assume "r \<in> set received"
    with select_schedule_received [OF s] have "r \<in> set ?respCh" by blast
    with interleave_set [of "select_order env t k" "map (\<lambda>(r, sent, reqs). sent) ?calls"]
    have "r \<in> set (concat (map (\<lambda>(r, sent, reqs). sent) ?calls))" by blast
    then show "resp_Error r = None" by (rule fineGrained_workers_sent)
  qed
  then obtain tree' where sl: "selectLoop env tree received = Some tree'"
    using selectLoop_no_fatal [of received env tree] by auto
  show ?case
    using s sl Suc.IH
    by (simp add: Let_def split: option.splits select_end.splits)
qed

lemma fineGrainedBackup_no_fatal:
  "fst (fineGrainedBackup fuel env cluster wire startKey endKey backupTS path rateLimit
     concurrency tree) \<notin> {LogFatal, Panicked, Blocked}"
  unfolding fineGrainedBackup_def by (rule fineGrainedBackup_from_no_fatal)

text \<open>
  A round goes on after a worker failed: in the cluster whose first range has no leader,
  the call for the second range is made all the same, so its request is on the wire and
  its response in the tree when \<^verbatim>\<open>fineGrainedBackup\<close> returns the first worker's error.
\<close>

lemma fineGrained_workers_after_error:
  "fineGrained_workers split_cluster 0 0 0 4 9 42 ''local:///backup'' 0 4
     (getIncompleteRange split_cluster [] ''a'' ''z'') =
     [(Inl (ErrCanNotFindRegion ''a''), [], []),
      (Inr 0,
       [\<lparr>resp_Error = None, resp_StartKey = ''m'', resp_EndKey = ''z'', resp_Files = [file1]\<rparr>],
       [SendBackupRpc 1 \<lparr>req_ClusterId = 9, req_StartKey = ''m'', req_EndKey = ''z'',
          req_StartVersion = 42, req_EndVersion = 42, req_Path = ''local:///backup'',
          req_RateLimit = 0, req_Concurrency = 4\<rparr>])]
   \<and> fineGrainedBackup 3 split_cluster 9 [] ''a'' ''z'' 42 ''local:///backup'' 0 4 [] =
       (Returned (Some (ErrCanNotFindRegion ''a'')),
        [\<lparr>rg_StartKey = ''m'', rg_EndKey = ''z'', rg_Files = [file1]\<rparr>],
        [SendBackupRpc 1 \<lparr>req_ClusterId = 9, req_StartKey = ''m'', req_EndKey = ''z'',
           req_StartVersion = 42, req_EndVersion = 42, req_Path = ''local:///backup'',
           req_RateLimit = 0, req_Concurrency = 4\<rparr>])"
  by (simp add: fineGrainedBackup_def handleFineGrained_def findRegionLeader_def
      select_schedule_def onBackupResponse_def split_cluster_def retry_cluster_def
      eval_nat_numeral peer1_def Let_def)

text \<open>
  A worker's error can be lost: when the store answers with the covering response and
  then breaks the stream, the worker's error waits on \<^verbatim>\<open>errCh\<close> while \<^verbatim>\<open>respCh\<close>
  gets closed. A select statement that takes \<^verbatim>\<open>respCh\<close> leaves the loop, the next
  round finds nothing incomplete and \<^verbatim>\<open>fineGrainedBackup\<close> returns nil; one that takes
  \<^verbatim>\<open>errCh\<close> returns the error.
\<close>

lemma fineGrainedBackup_lost_error:
  "fineGrainedBackup 3 reset_cluster 9 [] ''t100'' ''t101'' 42 ''local:///backup'' 0 4 [] =
     (Returned None,
      [\<lparr>rg_StartKey = ''t100'', rg_EndKey = ''t101'', rg_Files = [file1]\<rparr>],
      [SendBackupRpc 1 request100])
   \<and> fineGrainedBackup 3 reset_cluster_errCh 9 [] ''t100'' ''t101'' 42 ''local:///backup'' 0 4 []
       = (Returned (Some (ErrCollaborator ''rpc: connection reset'')), [],
          [SendBackupRpc 1 request100])"
  by (simp add: fineGrainedBackup_def handleFineGrained_def findRegionLeader_def
      select_schedule_def onBackupResponse_def reset_cluster_errCh_def reset_cluster_def
      retry_cluster_def request100_def eval_nat_numeral peer1_def Let_def)

text \<open>
  C9: every response that \<^verbatim>\<open>handleFineGrained\<close> sends on the response channel has a
  nil error. \<^verbatim>\<open>onBackupResponse\<close> returns a response only for an incoming response
  whose error is nil, and then that response itself; so no response the closure of
  \<^verbatim>\<open>handleFineGrained\<close> forwards carries an error. Hence the select loop of
  \<^verbatim>\<open>fineGrainedBackup\<close> does not reach its fatal branch on any list of responses that
  calls of \<^verbatim>\<open>handleFineGrained\<close> forwarded, whichever calls they were and in whatever
  order the responses arrive; and \<^verbatim>\<open>fineGrainedBackup\<close> never ends in \<^verbatim>\<open>log.Fatal\<close>,
  whatever the collaborators answer and the scheduler chooses.
\<close>

theorem fineGrained_fatal_unreachable:
  "(fst (onBackupResponse lockResolver resp) = Some response \<longrightarrow>
      resp_Error resp = None \<and> response = resp)
   \<and> (\<forall>r \<in> set (fst (snd (handleFineGrained env c cluster rg backupTS path rateLimit
                               concurrency))). resp_Error r = None)
   \<and> ((\<forall>r \<in> set received. \<exists>c' rg'.
          r \<in> set (fst (snd (handleFineGrained env c' cluster rg' backupTS path rateLimit
                                concurrency)))) \<longrightarrow>
        selectLoop env tree received \<noteq> None)
   \<and> fst (fineGrainedBackup fuel env cluster wire startKey endKey backupTS path rateLimit
            concurrency tree) \<noteq> LogFatal"
proof (intro conjI impI ballI)
  assume "fst (onBackupResponse lockResolver resp) = Some response"
  then show "resp_Error resp = None" "response = resp"
    by (simp_all add: onBackupResponse_Some_iff)
next
  fix r
  assume "r \<in> set (fst (snd (handleFineGrained env c cluster rg backupTS path rateLimit
                                 concurrency)))"
  then show "resp_Error r = None" by (rule handleFineGrained_sent)
next
  assume sub: "\<forall>r \<in> set received. \<exists>c' rg'.
          r \<in> set (fst (snd (handleFineGrained env c' cluster rg' backupTS path rateLimit
                                concurrency)))"
  show "selectLoop env tree received \<noteq> None"
  proof (rule selectLoop_no_fatal)
    fix r
    assume "r \<in> set received"
    with sub show "resp_Error r = None" by (blast intro: handleFineGrained_sent)
  qed
next
  show "fst (fineGrainedBackup fuel env cluster wire startKey endKey backupTS path rateLimit
              concurrency tree) \<noteq> LogFatal"
    using fineGrainedBackup_no_fatal [of fuel env cluster wire startKey endKey backupTS path
        rateLimit concurrency tree] by auto
qed

theorem fineGrained_fatal_unreachable_witness:
  "fst (onBackupResponse resolver_500 response100) = Some response100
   \<and> resp_Error response100 = None
   \<and> handleFineGrained retry_cluster (1, 0, 0) 9 range100 42 ''local:///backup'' 0 4 =
       (Inr 1000, [], [SendBackupRpc 1 request100])
   \<and> handleFineGrained retry_cluster (1, 1, 0) 9 range100 42 ''local:///backup'' 0 4 =
       (Inr 0, [response100], [SendBackupRpc 1 request100])
   \<and> selectLoop retry_cluster [] [response100] \<noteq> None
   \<and> fineGrainedBackup 3 retry_cluster 9 [PushBackupRpc request100 [store1]] ''t100'' ''t101''
         42 ''local:///backup'' 0 4 [] =
       (Returned None,
        [\<lparr>rg_StartKey = ''t100'', rg_EndKey = ''t101'', rg_Files = [file1]\<rparr>],
        [PushBackupRpc request100 [store1], SendBackupRpc 1 request100,
         SendBackupRpc 1 request100])"
proof -
  have h0: "handleFineGrained retry_cluster (1, 0, 0) 9 range100 42 ''local:///backup'' 0 4 =
       (Inr 1000, [], [SendBackupRpc 1 request100])"
    by (simp add: onBackupResponse_def request100_def range100_def retry_cluster_def
        handleFineGrained_def findRegionLeader_def eval_nat_numeral not_leader_response_def
        response_with_def no_region_error_def peer1_def Let_def)
  have h1: "handleFineGrained retry_cluster (1, 1, 0) 9 range100 42 ''local:///backup'' 0 4 =
       (Inr 0, [response100], [SendBackupRpc 1 request100])"
    by (simp add: onBackupResponse_def response100_def request100_def range100_def
        retry_cluster_def handleFineGrained_def findRegionLeader_def eval_nat_numeral
        peer1_def Let_def)
  have o: "fst (onBackupResponse resolver_500 response100) = Some response100"
    by (simp add: onBackupResponse_def response100_def)
  have f: "\<forall>r \<in> set [response100]. \<exists>c' rg'.
      r \<in> set (fst (snd (handleFineGrained retry_cluster c' 9 rg' 42 ''local:///backup'' 0 4)))"
  proof
    fix r
    assume "r \<in> set [response100]"
    with h1 have "r \<in> set (fst (snd (handleFineGrained retry_cluster (1, 1, 0) 9 range100 42
        ''local:///backup'' 0 4)))" by simp
    then show "\<exists>c' rg'. r \<in> set (fst (snd (handleFineGrained retry_cluster c' 9 rg' 42
        ''local:///backup'' 0 4)))" by blast
  qed
  have r: "fineGrainedBackup 3 retry_cluster 9 [PushBackupRpc request100 [store1]] ''t100''
      ''t101'' 42 ''local:///backup'' 0 4 [] =
       (Returned None,
        [\<lparr>rg_StartKey = ''t100'', rg_EndKey = ''t101'', rg_Files = [file1]\<rparr>],
        [PushBackupRpc request100 [store1], SendBackupRpc 1 request100,
         SendBackupRpc 1 request100])"
    by (simp add: fineGrainedBackup_def handleFineGrained_def findRegionLeader_def
        select_schedule_def onBackupResponse_def retry_cluster_def request100_def
        eval_nat_numeral not_leader_response_def response_with_def no_region_error_def
        peer1_def Let_def)
  from fineGrained_fatal_unreachable [where lockResolver = resolver_500 and resp = response100
      and response = response100 and env = retry_cluster and c = "(1, 1, 0)" and cluster = 9
      and rg = range100 and backupTS = 42 and path = "''local:///backup''" and rateLimit = 0
      and concurrency = 4 and received = "[response100]" and tree = "[]" and fuel = 3
      and wire = "[PushBackupRpc request100 [store1]]" and startKey = "''t100''"
      and endKey = "''t101''"] o f
  have "resp_Error response100 = None \<and> selectLoop retry_cluster [] [response100] \<noteq> None"
    by blast
  with o h0 h1 r show ?thesis by simp
qed

section \<open>Backing up ranges: theorems\<close>

declare BackupRanges_loop.simps [simp del]

lemma BackupRanges_loop_ticks:
  "BackupRanges_loop env ts n False (replicate k TickerC @ evs) =
   BackupRanges_loop env ts (n + k) False evs"
proof (induction k arbitrary: n)
  case 0
  show ?case by simp
next
  case (Suc k)
  have "BackupRanges_loop env ts n False (replicate (Suc k) TickerC @ evs) =
        BackupRanges_loop env ts (Suc n) False (replicate k TickerC @ evs)"
    by (subst BackupRanges_loop.simps) (simp add: Let_def)
  with Suc.IH [of "Suc n"] show ?case by simp
qed

lemma BackupRanges_loop_waiting:
  "BackupRanges_loop env ts n False [] = (None, Suc n)"
  by (subst BackupRanges_loop.simps) (simp add: Let_def)

lemma BackupRanges_loop_finished:
  "BackupRanges_loop env ts n True evs = (Some (CheckGCSafepoint env n ts), Suc n)"
  by (subst BackupRanges_loop.simps) (simp add: Let_def)

lemma BackupRanges_loop_closed:
  "BackupRanges_loop env ts n False (ErrCh None False # evs) =
   (Some (CheckGCSafepoint env (Suc n) ts), Suc (Suc n))"
  by (subst BackupRanges_loop.simps) (simp add: Let_def BackupRanges_loop_finished)

lemma BackupRanges_loop_sent:
  "BackupRanges_loop env ts n False (ErrCh (Some e) ok # evs) = (Some (Some e), Suc n)"
  by (subst BackupRanges_loop.simps) (simp add: Let_def)

lemma loop_ticks_only:
  "BackupRanges_loop env ts 0 False (replicate k TickerC) = (None, Suc k)"
  using BackupRanges_loop_ticks [of env ts 0 k "[]"] by (simp add: BackupRanges_loop_waiting)

lemma loop_ticks_closed:
  "BackupRanges_loop env ts 0 False (replicate k TickerC @ [ErrCh None False]) =
   (Some (CheckGCSafepoint env (Suc k) ts), Suc (Suc k))"
  by (simp add: BackupRanges_loop_ticks BackupRanges_loop_closed)

lemma loop_ticks_sent:
  "BackupRanges_loop env ts 0 False (replicate k TickerC @ [ErrCh (Some e) True]) =
   (Some (Some e), Suc k)"
  by (simp add: BackupRanges_loop_ticks BackupRanges_loop_sent)










lemma BackupRanges_Returned:
  "fst (BackupRanges fuel ticks env bc wire ranges path backupTS rate concurrency) = Returned res
   \<longleftrightarrow>
   (fst (BackupRanges_pipeline fuel env bc wire ranges path backupTS rate concurrency) = ErrChClosed
      \<and> res = CheckGCSafepoint env (Suc ticks) backupTS)
   \<or> (\<exists>e. fst (BackupRanges_pipeline fuel env bc wire ranges path backupTS rate concurrency)
            = ErrChSent e \<and> res = Some e)"
  unfolding BackupRanges_def
  by (cases "BackupRanges_pipeline fuel env bc wire ranges path backupTS rate concurrency")
     (auto simp: loop_ticks_closed loop_ticks_sent split: pipeline_end.splits)





text \<open>
  C1, as stated, fails: a safepoint check that fails while the range pipeline is running
  does not end the job. Here the checks before the pipeline's end fail (the one at the
  start and the one after the first tick), the final check passes, and
  \<^verbatim>\<open>BackupRanges\<close> returns nil.
\<close>

theorem BackupRanges_ignores_periodic_failure:
  "CheckGCSafepoint flaky_safepoint_cluster 0 42 = Some (ErrCollaborator ''GC safepoint exceed TS'')
   \<and> CheckGCSafepoint flaky_safepoint_cluster 1 42 = Some (ErrCollaborator ''GC safepoint exceed TS'')
   \<and> BackupRanges_loop flaky_safepoint_cluster 42 0 False [TickerC, ErrCh None False] =
       (Some None, 3)
   \<and> fst (BackupRanges 3 1 flaky_safepoint_cluster client0 [] [range100] ''local:///backup'' 42
            0 4) = Returned None"
proof -
  have l: "BackupRanges_loop flaky_safepoint_cluster 42 0 False [TickerC, ErrCh None False] =
      (Some None, 3)"
    using loop_ticks_closed [of flaky_safepoint_cluster 42 1]
    by (simp add: flaky_safepoint_cluster_def retry_cluster_def numeral_3_eq_3)
  have p: "fst (BackupRanges_pipeline 3 flaky_safepoint_cluster client0 [] [range100]
      ''local:///backup'' 42 0 4) = ErrChClosed"
    by (simp add: flaky_safepoint_cluster_def retry_cluster_def backupRange_def client0_def
        range100_def fineGrainedBackup_def handleFineGrained_def findRegionLeader_def
        select_schedule_def eval_nat_numeral Let_def
        onBackupResponse_def not_leader_response_def response_with_def no_region_error_def
        peer1_def)
  have c: "CheckGCSafepoint flaky_safepoint_cluster (Suc 1) 42 = None"
    by (simp add: flaky_safepoint_cluster_def retry_cluster_def)
  have "fst (BackupRanges 3 1 flaky_safepoint_cluster client0 [] [range100] ''local:///backup''
      42 0 4) = Returned None"
    using p c BackupRanges_Returned [of 3 1 flaky_safepoint_cluster client0 "[]" "[range100]"
        "''local:///backup''" 42 0 4 None] by simp
  with l show ?thesis
    by (simp add: flaky_safepoint_cluster_def retry_cluster_def)
qed

text \<open>
  C1, amended: while \<^verbatim>\<open>BackupRanges\<close> runs, the safepoint check is made once at the
  start and once more after every 30-second tick; what these checks return is logged and
  has no part in the result. After \<open>k\<close> ticks the loop has made \<open>k + 1\<close> checks and is
  still waiting. The first error of a range ends the job with that error. When the range
  pipeline finishes, one final check is made (the check number \<open>k + 1\<close>, counting from
  0) and its verdict is what \<^verbatim>\<open>BackupRanges\<close> returns.
\<close>

theorem BackupRanges_safepoint_checks:
  "BackupRanges_loop env backupTS 0 False (replicate k TickerC) = (None, k + 1)
   \<and> BackupRanges_loop env backupTS 0 False (replicate k TickerC @ [ErrCh (Some e) True]) =
       (Some (Some e), k + 1)
   \<and> BackupRanges_loop env backupTS 0 False (replicate k TickerC @ [ErrCh None False]) =
       (Some (CheckGCSafepoint env (k + 1) backupTS), k + 2)
   \<and> (fst (BackupRanges fuel k env bc wire ranges path backupTS rate concurrency) = Returned res
        \<longleftrightarrow>
        (fst (BackupRanges_pipeline fuel env bc wire ranges path backupTS rate concurrency)
           = ErrChClosed \<and> res = CheckGCSafepoint env (k + 1) backupTS)
        \<or> (\<exists>e'. fst (BackupRanges_pipeline fuel env bc wire ranges path backupTS rate concurrency)
                  = ErrChSent e' \<and> res = Some e'))"
  using BackupRanges_Returned [of fuel k env bc wire ranges path backupTS rate concurrency res]
  by (simp add: loop_ticks_only loop_ticks_closed loop_ticks_sent)

theorem BackupRanges_safepoint_checks_witness:
  "BackupRanges_loop exceeded_safepoint_cluster 42 0 False [TickerC, TickerC] = (None, 3)
   \<and> BackupRanges_loop exceeded_safepoint_cluster 42 0 False
        [TickerC, TickerC, ErrCh (Some (ErrCollaborator ''store down'')) True] =
       (Some (Some (ErrCollaborator ''store down'')), 3)
   \<and> BackupRanges_loop exceeded_safepoint_cluster 42 0 False [TickerC, TickerC, ErrCh None False] =
       (Some (Some (ErrCollaborator ''GC safepoint exceed TS'')), 4)
   \<and> fst (BackupRanges 3 2 exceeded_safepoint_cluster client0 [] [range100] ''local:///backup''
            42 0 4) = Returned (Some (ErrCollaborator ''GC safepoint exceed TS''))"
proof -
  have p: "fst (BackupRanges_pipeline 3 exceeded_safepoint_cluster client0 [] [range100]
      ''local:///backup'' 42 0 4) = ErrChClosed"
    by (simp add: exceeded_safepoint_cluster_def retry_cluster_def backupRange_def client0_def
        range100_def fineGrainedBackup_def handleFineGrained_def findRegionLeader_def
        select_schedule_def eval_nat_numeral Let_def
        onBackupResponse_def not_leader_response_def response_with_def no_region_error_def
        peer1_def)
  show ?thesis
    using p BackupRanges_safepoint_checks [where env = exceeded_safepoint_cluster
        and backupTS = 42 and k = 2 and e = "ErrCollaborator ''store down''" and fuel = 3
        and bc = client0 and wire = "[]" and ranges = "[range100]"
        and path = "''local:///backup''" and rate = 0 and concurrency = 4
        and res = "Some (ErrCollaborator ''GC safepoint exceed TS'')"]
    by (simp add: exceeded_safepoint_cluster_def retry_cluster_def eval_nat_numeral)
qed



section \<open>The snapshot timestamp: theorems\<close>

lemma mask18: "(push_bit 18 1 - 1 :: 64 word) = mask 18"
  by (simp add: mask_eq_exp_minus_1 push_bit_eq_mult)

lemma ts_Physical_EncodeTs:
  "ts_Physical (EncodeTs ts) = take_bit 46 (Physical ts)"
  unfolding ts_Physical_def EncodeTs_def mask18
  by (rule bit_word_eqI) (auto simp: bit_simps)

lemma ts_Physical_EncodeTs_small:
  "Physical ts < 2 ^ 46 \<Longrightarrow> ts_Physical (EncodeTs ts) = Physical ts"
  by (simp add: ts_Physical_EncodeTs take_bit_eq_mask less_mask_eq)

lemma GetTS_empty:
  "GetTS env '''' = (case pd_GetTS env of Inl err \<Rightarrow> Inl err
     | Inr (p, l) \<Rightarrow> Inr (EncodeTs \<lparr>Physical = p, Logical = l\<rparr>))"
  by (simp add: GetTS_def split: sum.splits)

lemma GetTS_timeago_Inr:
  assumes "timeAgo \<noteq> ''''" and "GetTS env timeAgo = Inr backupTS"
  shows "\<exists>p l d sp. pd_GetTS env = Inr (p, l) \<and> ParseDuration env timeAgo = Inr d \<and>
           GetGCSafePoint env = Inr sp \<and>
           backupTS = EncodeTs \<lparr>Physical = p - i64_div d Millisecond, Logical = l\<rparr> \<and>
           Physical sp \<le>s p - i64_div d Millisecond"
  using assms
  by (auto simp: GetTS_def Let_def signed.not_less split: sum.splits prod.splits if_splits)

text \<open>
  C3, as stated, fails: \<^verbatim>\<open>GetTS\<close> rejects a snapshot only when its physical time is
  below the safepoint's. With the placement driver at 3600005 ms, the safepoint at 5 ms
  and \<^verbatim>\<open>timeago = 1h\<close>, it returns the timestamp of 5 ms: equal to the safepoint, not
  greater.
\<close>

theorem GetTS_accepts_the_safepoint:
  "GetGCSafePoint ts_env_at_safepoint = Inr \<lparr>Physical = 5, Logical = 0\<rparr>
   \<and> GetTS ts_env_at_safepoint ''1h'' = Inr 1310720
   \<and> ts_Physical 1310720 = 5
   \<and> \<not> (5 <s ts_Physical 1310720)"
  by (simp add: GetTS_def ts_env_at_safepoint_def one_hour_parser_def i64_div_def
      Millisecond_def signed_divide_int_def EncodeTs_def ts_Physical_def Let_def)

text \<open>
  C3, amended: for a non-empty \<^verbatim>\<open>timeago\<close>, \<^verbatim>\<open>GetTS\<close> subtracts the parsed duration,
  in whole milliseconds, from the physical time of the placement driver's timestamp. It
  returns the error "given backup time exceed GCSafePoint" whenever the result is below
  the physical time of the GC safepoint, and otherwise, also when the two are equal, it
  returns the encoding of the result with the driver's logical part. So a timestamp it
  returns encodes a physical time that is greater than or equal to the safepoint's; and
  the physical part read back from the returned timestamp is that time, hence greater
  than or equal to the safepoint's, whenever the time is at least 0 and below \<open>2 ^ 46\<close>
  milliseconds, the 46 bits the encoding leaves for it (the comparison \<open><\<close> of the
  statement is the unsigned one).
\<close>

theorem GetTS_timeago_safepoint:
  "timeAgo \<noteq> '''' \<longrightarrow>
     (pd_GetTS env = Inr (p', l') \<and> ParseDuration env timeAgo = Inr d' \<and>
          GetGCSafePoint env = Inr sp' \<and> p' - i64_div d' Millisecond <s Physical sp' \<longrightarrow>
        GetTS env timeAgo = Inl (ErrNew ''given backup time exceed GCSafePoint''))
     \<and> (pd_GetTS env = Inr (p', l') \<and> ParseDuration env timeAgo = Inr d' \<and>
          GetGCSafePoint env = Inr sp' \<and> Physical sp' \<le>s p' - i64_div d' Millisecond \<longrightarrow>
        GetTS env timeAgo =
          Inr (EncodeTs \<lparr>Physical = p' - i64_div d' Millisecond, Logical = l'\<rparr>))
     \<and> (GetTS env timeAgo = Inr backupTS \<longrightarrow>
        (\<exists>p l d sp. pd_GetTS env = Inr (p, l) \<and> ParseDuration env timeAgo = Inr d \<and>
           GetGCSafePoint env = Inr sp \<and>
           backupTS = EncodeTs \<lparr>Physical = p - i64_div d Millisecond, Logical = l\<rparr> \<and>
           Physical sp \<le>s p - i64_div d Millisecond \<and>
           (p - i64_div d Millisecond < 2 ^ 46 \<longrightarrow>
              ts_Physical backupTS = p - i64_div d Millisecond \<and>
              Physical sp \<le>s ts_Physical backupTS)))"
proof (intro impI conjI)
  assume "timeAgo \<noteq> ''''"
    and "pd_GetTS env = Inr (p', l') \<and> ParseDuration env timeAgo = Inr d' \<and>
         GetGCSafePoint env = Inr sp' \<and> p' - i64_div d' Millisecond <s Physical sp'"
  then show "GetTS env timeAgo = Inl (ErrNew ''given backup time exceed GCSafePoint'')"
    by (simp add: GetTS_def Let_def)
next
  assume "timeAgo \<noteq> ''''"
    and "pd_GetTS env = Inr (p', l') \<and> ParseDuration env timeAgo = Inr d' \<and>
         GetGCSafePoint env = Inr sp' \<and> Physical sp' \<le>s p' - i64_div d' Millisecond"
  then show "GetTS env timeAgo =
      Inr (EncodeTs \<lparr>Physical = p' - i64_div d' Millisecond, Logical = l'\<rparr>)"
    by (simp add: GetTS_def Let_def signed.not_less)
next
  assume ne: "timeAgo \<noteq> ''''" and ok: "GetTS env timeAgo = Inr backupTS"
  from GetTS_timeago_Inr [OF ne ok] obtain p l d sp where
    h: "pd_GetTS env = Inr (p, l)" "ParseDuration env timeAgo = Inr d"
       "GetGCSafePoint env = Inr sp"
       "backupTS = EncodeTs \<lparr>Physical = p - i64_div d Millisecond, Logical = l\<rparr>"
       "Physical sp \<le>s p - i64_div d Millisecond"
    by blast
  have "p - i64_div d Millisecond < 2 ^ 46 \<longrightarrow>
          ts_Physical backupTS = p - i64_div d Millisecond \<and>
          Physical sp \<le>s ts_Physical backupTS"
    using h(4,5) ts_Physical_EncodeTs_small
      [of "\<lparr>Physical = p - i64_div d Millisecond, Logical = l\<rparr>"] by simp
  with h show "\<exists>p l d sp. pd_GetTS env = Inr (p, l) \<and> ParseDuration env timeAgo = Inr d \<and>
           GetGCSafePoint env = Inr sp \<and>
           backupTS = EncodeTs \<lparr>Physical = p - i64_div d Millisecond, Logical = l\<rparr> \<and>
           Physical sp \<le>s p - i64_div d Millisecond \<and>
           (p - i64_div d Millisecond < 2 ^ 46 \<longrightarrow>
              ts_Physical backupTS = p - i64_div d Millisecond \<and>
              Physical sp \<le>s ts_Physical backupTS)"
    by blast
qed

theorem GetTS_timeago_safepoint_witness:
  "GetTS ts_env_at_safepoint ''1h'' = Inr 1310720
   \<and> ts_Physical 1310720 = 5
   \<and> (5 :: i64) \<le>s ts_Physical 1310720
   \<and> GetTS ts_env_behind_safepoint ''1h'' = Inl (ErrNew ''given backup time exceed GCSafePoint'')"
proof -
  have e: "i64_div 3600000000000 Millisecond = 3600000"
    by (simp add: i64_div_def Millisecond_def signed_divide_int_def)
  have n: "''1h'' \<noteq> ''''" by simp
  have h: "pd_GetTS ts_env_at_safepoint = Inr (3600005, 0) \<and>
      ParseDuration ts_env_at_safepoint ''1h'' = Inr 3600000000000 \<and>
      GetGCSafePoint ts_env_at_safepoint = Inr \<lparr>Physical = 5, Logical = 0\<rparr> \<and>
      Physical \<lparr>Physical = 5, Logical = 0\<rparr> \<le>s 3600005 - i64_div 3600000000000 Millisecond"
    by (simp add: ts_env_at_safepoint_def one_hour_parser_def e)
  from GetTS_timeago_safepoint [where timeAgo = "''1h''" and env = ts_env_at_safepoint
        and p' = 3600005 and l' = 0 and d' = 3600000000000
        and sp' = "\<lparr>Physical = 5, Logical = 0\<rparr>" and backupTS = 1310720] n h
  have a: "GetTS ts_env_at_safepoint ''1h'' =
      Inr (EncodeTs \<lparr>Physical = 3600005 - i64_div 3600000000000 Millisecond, Logical = 0\<rparr>)"
    and x: "GetTS ts_env_at_safepoint ''1h'' = Inr 1310720 \<longrightarrow>
        (\<exists>p l d sp. pd_GetTS ts_env_at_safepoint = Inr (p, l) \<and>
           ParseDuration ts_env_at_safepoint ''1h'' = Inr d \<and>
           GetGCSafePoint ts_env_at_safepoint = Inr sp \<and>
           1310720 = EncodeTs \<lparr>Physical = p - i64_div d Millisecond, Logical = l\<rparr> \<and>
           Physical sp \<le>s p - i64_div d Millisecond \<and>
           (p - i64_div d Millisecond < 2 ^ 46 \<longrightarrow>
              ts_Physical 1310720 = p - i64_div d Millisecond \<and>
              Physical sp \<le>s ts_Physical 1310720))"
    by blast+
  from a have a': "GetTS ts_env_at_safepoint ''1h'' = Inr 1310720"
    by (simp add: e EncodeTs_def)
  with x obtain p l d sp where y:
    "pd_GetTS ts_env_at_safepoint = Inr (p, l)"
    "ParseDuration ts_env_at_safepoint ''1h'' = Inr d"
    "GetGCSafePoint ts_env_at_safepoint = Inr sp"
    "p - i64_div d Millisecond < 2 ^ 46 \<longrightarrow>
       ts_Physical 1310720 = p - i64_div d Millisecond \<and> Physical sp \<le>s ts_Physical 1310720"
    by blast
  from y(1,2,3) have "p = 3600005" "d = 3600000000000" "Physical sp = 5"
    by (auto simp: ts_env_at_safepoint_def one_hour_parser_def)
  with y(4) have b: "ts_Physical 1310720 = 5 \<and> (5 :: i64) \<le>s ts_Physical 1310720"
    by (simp add: e)
  have hb: "pd_GetTS ts_env_behind_safepoint = Inr (5, 0) \<and>
      ParseDuration ts_env_behind_safepoint ''1h'' = Inr 3600000000000 \<and>
      GetGCSafePoint ts_env_behind_safepoint = Inr \<lparr>Physical = 100, Logical = 0\<rparr> \<and>
      5 - i64_div 3600000000000 Millisecond <s Physical \<lparr>Physical = 100, Logical = 0\<rparr>"
    by (simp add: ts_env_behind_safepoint_def one_hour_parser_def e)
  from GetTS_timeago_safepoint [where timeAgo = "''1h''" and env = ts_env_behind_safepoint
        and p' = 5 and l' = 0 and d' = 3600000000000
        and sp' = "\<lparr>Physical = 100, Logical = 0\<rparr>" and backupTS = 0] n hb
  have c: "GetTS ts_env_behind_safepoint ''1h'' =
      Inl (ErrNew ''given backup time exceed GCSafePoint'')"
    by blast
  from a' b c show ?thesis by simp
qed

text \<open>
  C10: with an empty \<^verbatim>\<open>timeago\<close>, \<^verbatim>\<open>GetTS\<close> returns the encoded timestamp of the
  placement driver (or the driver's error) and does not consult the GC safepoint: the
  result is the same whatever the safepoint lookup and the duration parser would answer.
\<close>

theorem GetTS_empty_timeago_no_safepoint:
  "(pd_GetTS env = Inr (p, l) \<longrightarrow> GetTS env '''' = Inr (EncodeTs \<lparr>Physical = p, Logical = l\<rparr>))
   \<and> (pd_GetTS env = Inl err \<longrightarrow> GetTS env '''' = Inl err)
   \<and> GetTS (env\<lparr>GetGCSafePoint := safePoint, ParseDuration := parse\<rparr>) '''' = GetTS env ''''"
  by (simp add: GetTS_empty)

theorem GetTS_empty_timeago_no_safepoint_witness:
  "GetGCSafePoint ts_env_behind_safepoint = Inr \<lparr>Physical = 100, Logical = 0\<rparr>
   \<and> GetTS ts_env_behind_safepoint '''' = Inr 1310720
   \<and> ts_Physical 1310720 = 5
   \<and> GetTS (ts_env_behind_safepoint\<lparr>GetGCSafePoint := Inl (ErrCollaborator ''pd: down''),
        ParseDuration := one_hour_parser\<rparr>) '''' = Inr 1310720"
  using GetTS_empty_timeago_no_safepoint [where env = ts_env_behind_safepoint and p = 5
      and l = 0 and safePoint = "Inl (ErrCollaborator ''pd: down'')" and parse = one_hour_parser]
  by (simp add: ts_env_behind_safepoint_def EncodeTs_def ts_Physical_def)

section \<open>The external storage: theorems\<close>

lemma SetStorage_exists:
  "create base = Inr s \<Longrightarrow> FileExists s MetaFile \<Longrightarrow>
   SetStorage create bc base =
     (Some (ErrNew ''backup meta exists, may be some backup files in the path already''),
      bc\<lparr>storage := Some s\<rparr>)"
  by (simp add: SetStorage_def)

lemma SetStorage_fresh:
  "create base = Inr s \<Longrightarrow> \<not> FileExists s MetaFile \<Longrightarrow>
   SetStorage create bc base = (None, bc\<lparr>storage := Some s\<rparr>)"
  by (simp add: SetStorage_def)

lemma SetStorage_wire:
  "fst (SetStorage create bc base) = None \<Longrightarrow>
   \<exists>s. create base = Inr s \<and> \<not> FileExists s MetaFile \<and>
       snd (SetStorage create bc base) = bc\<lparr>storage := Some s\<rparr>"
  by (auto simp: SetStorage_def split: sum.splits if_splits)

section \<open>The fast checksum: theorems\<close>

lemma FastChecksum_files_acc:
  "FastChecksum_files (c, k, b) files =
     (c XOR foldr (XOR) (map file_Crc64Xor files) 0,
      k + sum_list (map file_TotalKvs files),
      b + sum_list (map file_TotalBytes files))"
  by (induction files arbitrary: c k b) (simp_all add: ac_simps)

lemma FastChecksum_files_spec:
  "FastChecksum_files (0, 0, 0) files = spec_file_stats files"
  by (simp add: FastChecksum_files_acc spec_file_stats_def)

lemma FastChecksum_schemas_step:
  "schema_table env dbs schema = Some tbl \<Longrightarrow>
   FastChecksum_schemas env dbs (schema # schemas) =
     (if schema_agrees env dbs schema then FastChecksum_schemas env dbs schemas
      else Returned (False, None))"
  by (auto simp: schema_table_def schema_agrees_def FastChecksum_files_spec
      split: sum.splits option.splits prod.splits)

lemma FastChecksum_schemas_True_step:
  "FastChecksum_schemas env dbs (schema # schemas) = Returned (True, err) \<Longrightarrow>
   schema_agrees env dbs schema \<and> FastChecksum_schemas env dbs schemas = Returned (True, err)"
  by (auto simp: schema_table_def schema_agrees_def FastChecksum_files_spec
      split: sum.splits option.splits prod.splits if_splits)

lemma FastChecksum_schemas_resolved:
  "(\<And>schema. schema \<in> set schemas \<Longrightarrow> schema_table env dbs schema \<noteq> None) \<Longrightarrow>
   FastChecksum_schemas env dbs schemas = Returned (list_all (schema_agrees env dbs) schemas, None)"
proof (induction schemas)
  case Nil
  show ?case by simp
next
  case (Cons schema schemas)
  from Cons.prems [of schema] obtain tbl where t: "schema_table env dbs schema = Some tbl"
    by auto
  have ih: "FastChecksum_schemas env dbs schemas =
      Returned (list_all (schema_agrees env dbs) schemas, None)"
    using Cons.IH Cons.prems by simp
  show ?case
    unfolding FastChecksum_schemas_step [OF t] ih by simp
qed

lemma FastChecksum_schemas_True:
  "FastChecksum_schemas env dbs schemas = Returned (True, err) \<Longrightarrow>
   err = None \<and> list_all (schema_agrees env dbs) schemas"
proof (induction schemas)
  case Nil
  then show ?case by simp
next
  case (Cons schema schemas)
  from FastChecksum_schemas_True_step [OF Cons.prems] Cons.IH show ?case by simp
qed

text \<open>
  C4: \<^verbatim>\<open>FastChecksum\<close> compares, for every schema of the manifest, the recorded triple
  with the xor of \<^verbatim>\<open>Crc64Xor\<close> and the sums of \<^verbatim>\<open>TotalKvs\<close> and \<^verbatim>\<open>TotalBytes\<close> over
  the files of that schema's table. It returns true only when every schema agrees (and
  then without an error); whenever some schema disagrees, what it returns is false; and
  when every schema resolves to a table, as in what \<^verbatim>\<open>LoadBackupTables\<close> builds from
  the same manifest, it returns, without an error, whether all schemas agree.
\<close>

theorem FastChecksum_verdict:
  "LoadBackupTables env (backupMeta bc) = Inr dbs \<longrightarrow>
     (FastChecksum env bc = Returned (True, err) \<longrightarrow>
        err = None \<and> (\<forall>schema \<in> set (meta_Schemas (backupMeta bc)). schema_agrees env dbs schema))
   \<and> ((\<forall>schema \<in> set (meta_Schemas (backupMeta bc)). schema_table env dbs schema \<noteq> None) \<longrightarrow>
        FastChecksum env bc =
          Returned (\<forall>schema \<in> set (meta_Schemas (backupMeta bc)). schema_agrees env dbs schema, None))
   \<and> (FastChecksum env bc = Returned (valid, err) \<and>
        (\<exists>schema \<in> set (meta_Schemas (backupMeta bc)). \<not> schema_agrees env dbs schema) \<longrightarrow>
        \<not> valid)"
proof (intro impI conjI)
  assume l: "LoadBackupTables env (backupMeta bc) = Inr dbs"
    and t: "FastChecksum env bc = Returned (True, err)"
  then have "FastChecksum_schemas env dbs (meta_Schemas (backupMeta bc)) = Returned (True, err)"
    by (simp add: FastChecksum_def)
  from FastChecksum_schemas_True [OF this]
  show "err = None" "\<forall>schema \<in> set (meta_Schemas (backupMeta bc)). schema_agrees env dbs schema"
    by (simp_all add: list_all_iff)
next
  assume l: "LoadBackupTables env (backupMeta bc) = Inr dbs"
    and r: "\<forall>schema \<in> set (meta_Schemas (backupMeta bc)). schema_table env dbs schema \<noteq> None"
  then show "FastChecksum env bc =
      Returned (\<forall>schema \<in> set (meta_Schemas (backupMeta bc)). schema_agrees env dbs schema, None)"
    using FastChecksum_schemas_resolved [of "meta_Schemas (backupMeta bc)" env dbs]
    by (simp add: FastChecksum_def list_all_iff)
next
  assume l: "LoadBackupTables env (backupMeta bc) = Inr dbs"
    and v: "FastChecksum env bc = Returned (valid, err) \<and>
        (\<exists>schema \<in> set (meta_Schemas (backupMeta bc)). \<not> schema_agrees env dbs schema)"
  show "\<not> valid"
  proof
    assume valid
    with l v have "FastChecksum_schemas env dbs (meta_Schemas (backupMeta bc)) =
        Returned (True, err)" by (simp add: FastChecksum_def)
    from FastChecksum_schemas_True [OF this] v show False by (auto simp: list_all_iff)
  qed
qed


theorem FastChecksum_verdict_witness:
  "spec_file_stats [file1] = (17, 10, 100)
   \<and> FastChecksum (fc_of load_test_t) (client_with [schema_test_t 17] [file1]) =
       Returned (True, None)
   \<and> FastChecksum (fc_of load_test_t) (client_with [schema_test_t 18] [file1]) =
       Returned (False, None)"
proof -
  let ?dbs = "[''test'' \<mapsto> [(''t'', \<lparr>tb_Files = [file1]\<rparr>)]]"
  have s: "spec_file_stats [file1] = (17, 10, 100)"
    by (simp add: spec_file_stats_def file1_def)
  have t: "schema_table (fc_of load_test_t) ?dbs (schema_test_t crc) =
      Some \<lparr>tb_Files = [file1]\<rparr>" for crc
    by (simp add: schema_table_def fc_of_def schema_test_t_def ci_def)
  have a: "schema_agrees (fc_of load_test_t) ?dbs (schema_test_t crc) = (crc = 17)" for crc
    by (simp add: schema_agrees_def t s) (simp add: schema_test_t_def)
  have l: "LoadBackupTables (fc_of load_test_t) (backupMeta (client_with [schema_test_t crc] [file1]))
      = Inr ?dbs" for crc
    by (simp add: fc_of_def load_test_t_def client_with_def client0_def empty_meta_def)
  have m: "meta_Schemas (backupMeta (client_with [schema_test_t crc] [file1])) = [schema_test_t crc]"
    for crc
    by (simp add: client_with_def client0_def empty_meta_def)
  have "FastChecksum (fc_of load_test_t) (client_with [schema_test_t 17] [file1]) =
      Returned (True, None)"
    using FastChecksum_verdict [where env = "fc_of load_test_t"
        and bc = "client_with [schema_test_t 17] [file1]" and dbs = ?dbs] l [of 17]
    by (simp add: m t a)
  moreover have "FastChecksum (fc_of load_test_t) (client_with [schema_test_t 18] [file1]) =
      Returned (False, None)"
    using FastChecksum_verdict [where env = "fc_of load_test_t"
        and bc = "client_with [schema_test_t 18] [file1]" and dbs = ?dbs] l [of 18]
    by (simp add: m t a)
  ultimately show ?thesis using s by simp
qed

section \<open>Planning the ranges: theorems\<close>













section \<open>Evaluating the definitions on the concrete inputs\<close>

lemmas fixture_defs =
  demo_cli_def retry_cluster_def catalog_of_def sql_test_t_def fc_of_def load_test_t_def
  create_storage_def empty_storage_def used_storage_def one_hour_parser_def parse_uint_def
  db_mysql_def db_test_t_def table_t_def table_user_def ci_def prefix_of_def store1_def
  peer1_def file1_def not_leader_response_def response_with_def no_region_error_def
  request100_def client0_def empty_meta_def resolver_500_def schema_test_t_def
  client_with_def

lemmas program_defs =
  newFullBackupCommand_def newTableBackupCommand_def backup_and_save_def NewBackupClient_def
  SetStorage_def FileExists_def MetaFile_def GetTS_def EncodeTs_def
  PreBackupAllTableRanges_def PreBackupTableRanges_def SystemDatabases_def
  startTableChecksum_def buildTableRanges_def tableRange_Range_def GetRangeRegionCount_def
  BackupRanges_def backupRange_def fineGrainedBackup_def select_schedule_def
  handleFineGrained_def findRegionLeader_def
  onBackupResponse_def CompleteMeta_def getChecksumFromTiDB_def index_def FastChecksum_def
  SaveBackupMeta_def manifest_of_def

lemma five: "(5::nat) = Suc (Suc (Suc (Suc (Suc 0))))"
  by simp


lemma table_backup_run:
  "fst (newTableBackupCommand 3 1 demo_cli) = Returned None
   \<and> snd (snd (newTableBackupCommand 3 1 demo_cli)) =
       [PushBackupRpc request100 [store1], SendBackupRpc 1 request100, SendBackupRpc 1 request100]"
  by (simp add: program_defs fixture_defs Let_def numeral_3_eq_3 five
      loop_ticks_closed [of _ _ 1, simplified])

section \<open>The commands: theorems\<close>











text \<open>
  C7: \<^verbatim>\<open>SetStorage\<close> returns an error when the destination already holds a file named
  \<^verbatim>\<open>backupmeta\<close>, and succeeds, with the storage set, when it does not. It runs before
  any backup work: when it fails, both commands return its error, with no request sent.
  (The destination is the storage \<^verbatim>\<open>utils.CreateStorage\<close> returns; when that call
  fails there is none, and \<^verbatim>\<open>SetStorage\<close> returns its error.)
\<close>

theorem SetStorage_refuses_existing_manifest:
  "(create base = Inr s \<and> FileExists s MetaFile \<longrightarrow>
      SetStorage create bc base =
        (Some (ErrNew ''backup meta exists, may be some backup files in the path already''),
         bc\<lparr>storage := Some s\<rparr>))
   \<and> (create base = Inr s \<and> \<not> FileExists s MetaFile \<longrightarrow>
        SetStorage create bc base = (None, bc\<lparr>storage := Some s\<rparr>))
   \<and> (GetDefaultBacker env = None \<and> NewBackupClient env = Inr client \<and>
       flag_storage env = Inr u \<and> u \<noteq> '''' \<and>
       fst (SetStorage (CreateStorage env) client u) = Some err \<longrightarrow>
        newFullBackupCommand fuel ticks env =
          (Returned (Some err), Some (snd (SetStorage (CreateStorage env) client u)), [])
        \<and> newTableBackupCommand fuel ticks env =
          (Returned (Some err), Some (snd (SetStorage (CreateStorage env) client u)), []))
   \<and> (create base = Inl e \<longrightarrow> SetStorage create bc base = (Some e, bc\<lparr>storage := None\<rparr>))"
proof (intro conjI impI)
  assume "create base = Inl e"
  then show "SetStorage create bc base = (Some e, bc\<lparr>storage := None\<rparr>)"
    by (simp add: SetStorage_def)
next
  assume "create base = Inr s \<and> FileExists s MetaFile"
  then show "SetStorage create bc base =
        (Some (ErrNew ''backup meta exists, may be some backup files in the path already''),
         bc\<lparr>storage := Some s\<rparr>)"
    by (simp add: SetStorage_exists)
next
  assume "create base = Inr s \<and> \<not> FileExists s MetaFile"
  then show "SetStorage create bc base = (None, bc\<lparr>storage := Some s\<rparr>)"
    by (simp add: SetStorage_fresh)
next
  assume h: "GetDefaultBacker env = None \<and> NewBackupClient env = Inr client \<and>
       flag_storage env = Inr u \<and> u \<noteq> '''' \<and>
       fst (SetStorage (CreateStorage env) client u) = Some err"
  obtain e client1 where s: "SetStorage (CreateStorage env) client u = (e, client1)"
    by (cases "SetStorage (CreateStorage env) client u") auto
  with h have e: "e = Some err" by simp
  from h s e show "newFullBackupCommand fuel ticks env =
          (Returned (Some err), Some (snd (SetStorage (CreateStorage env) client u)), [])"
    by (simp add: newFullBackupCommand_def)
  from h s e show "newTableBackupCommand fuel ticks env =
          (Returned (Some err), Some (snd (SetStorage (CreateStorage env) client u)), [])"
    by (simp add: newTableBackupCommand_def)
qed

theorem SetStorage_refuses_existing_manifest_witness:
  "SetStorage create_storage client0 ''local:///used'' =
     (Some (ErrNew ''backup meta exists, may be some backup files in the path already''),
      client0\<lparr>storage := Some used_storage\<rparr>)
   \<and> SetStorage create_storage client0 ''local:///backup'' =
       (None, client0\<lparr>storage := Some empty_storage\<rparr>)
   \<and> newFullBackupCommand 3 1 used_storage_cli =
       (Returned (Some (ErrNew ''backup meta exists, may be some backup files in the path already'')),
        Some (client0\<lparr>storage := Some used_storage\<rparr>), [])
   \<and> newTableBackupCommand 3 1 used_storage_cli =
       (Returned (Some (ErrNew ''backup meta exists, may be some backup files in the path already'')),
        Some (client0\<lparr>storage := Some used_storage\<rparr>), [])"
proof -
  note c = SetStorage_refuses_existing_manifest
  have a: "SetStorage create_storage client0 ''local:///used'' =
     (Some (ErrNew ''backup meta exists, may be some backup files in the path already''),
      client0\<lparr>storage := Some used_storage\<rparr>)"
    using c [where create = create_storage and base = "''local:///used''" and s = used_storage
        and bc = client0, THEN conjunct1]
    by (simp add: create_storage_def used_storage_def FileExists_def MetaFile_def)
  have b: "SetStorage create_storage client0 ''local:///backup'' =
       (None, client0\<lparr>storage := Some empty_storage\<rparr>)"
    using c [where create = create_storage and base = "''local:///backup''"
        and s = empty_storage and bc = client0, THEN conjunct2, THEN conjunct1]
    by (simp add: create_storage_def empty_storage_def FileExists_def MetaFile_def)
  have n: "NewBackupClient used_storage_cli = Inr client0"
    by (simp add: used_storage_cli_def demo_cli_def NewBackupClient_def retry_cluster_def
        client0_def empty_meta_def)
  have f: "GetDefaultBacker used_storage_cli = None"
    "flag_storage used_storage_cli = Inr ''local:///used''"
    "CreateStorage used_storage_cli = create_storage"
    by (simp_all add: used_storage_cli_def demo_cli_def)
  from c [where env = used_storage_cli and client = client0 and u = "''local:///used''"
      and err = "ErrNew ''backup meta exists, may be some backup files in the path already''"
      and fuel = 3 and ticks = 1, THEN conjunct2, THEN conjunct2, THEN conjunct1] n f a b
  show ?thesis by simp
qed

text \<open>
  C8 does not hold of the code: when \<^verbatim>\<open>NewBackupClient\<close> fails, the handler of
  \<^verbatim>\<open>backup full\<close> returns nil, where the handler of \<^verbatim>\<open>backup table\<close> returns the
  error.
\<close>

theorem newFullBackupCommand_drops_client_error:
  "GetDefaultBacker env = None \<and> NewBackupClient env = Inl err \<longrightarrow>
     newFullBackupCommand fuel ticks env = (Returned None, None, [])
     \<and> newTableBackupCommand fuel ticks env = (Returned (Some err), None, [])"
  by (simp add: newFullBackupCommand_def newTableBackupCommand_def)

theorem newFullBackupCommand_drops_client_error_witness:
  "NewBackupClient pd_down_cli = Inl (ErrCollaborator ''pd: connection refused'')
   \<and> newFullBackupCommand 3 1 pd_down_cli = (Returned None, None, [])
   \<and> newTableBackupCommand 3 1 pd_down_cli =
       (Returned (Some (ErrCollaborator ''pd: connection refused'')), None, [])"
proof -
  have n: "NewBackupClient pd_down_cli = Inl (ErrCollaborator ''pd: connection refused'')"
    by (simp add: pd_down_cli_def demo_cli_def NewBackupClient_def)
  have g: "GetDefaultBacker pd_down_cli = None"
    by (simp add: pd_down_cli_def demo_cli_def)
  from newFullBackupCommand_drops_client_error [where env = pd_down_cli
      and err = "ErrCollaborator ''pd: connection refused''" and fuel = 3 and ticks = 1] n g
  show ?thesis by simp
qed


end
